theory Spec2Isabelle
  imports Complex_Main "HOL-Library.Word" "HOL-Library.Signed_Division"
begin

section \<open>Constants and data model of src/main.cpp\<close>

text \<open>
  The game is one class, \<open>Application\<close>, whose fields are mutated by the event handler
  and by the per-frame \<open>update\<close>. The model is a record of those fields and one HOL
  function per member function, taking the record and returning the new one.

  \<^item> C++ \<open>int\<close> fields are modelled as \<open>int\<close>. Cell coordinates stay below 800 and the
    score counts the food eaten. The increments of the configuration menu, which key
    presses alone repeat without bound, check the 32-bit range: adding 1 to \<open>INT_MAX\<close>
    overflows, which C++ leaves undefined, and the model has no result there (\<open>None\<close>).
  \<^item> \<open>Uint32\<close> (the SDL tick counter) is \<open>32 word\<close>: subtraction wraps and \<open><\<close> is the
    unsigned comparison. The cast \<open>(Uint32)snakeSpeed\<close> is \<open>word_of_int\<close>.
  \<^item> \<open>float\<close> is a type parameter \<open>'f\<close>; the float operations the code uses are the
    fields of a \<open>float_ops\<close> record passed to every function that computes with floats,
    so every theorem holds for whatever the machine's float arithmetic is.
  \<^item> \<open>std::rand()\<close> is a tape of the values it will return (each a \<open>nat\<close>). A spawning
    loop that has not found a cell when the tape ends returns \<open>None\<close>: the rejection
    loops of the source have no bound on their retries.
  \<^item> The rendering, audio and window members (and the decorative grass blades, which only
    the renderer reads) are left out; no modelled function reads them.
\<close>

abbreviation SCREEN_WIDTH :: int where "SCREEN_WIDTH \<equiv> 800"
abbreviation SCREEN_HEIGHT :: int where "SCREEN_HEIGHT \<equiv> 600"
abbreviation GRID_SIZE :: int where "GRID_SIZE \<equiv> 20"
abbreviation DEFAULT_SNAKE_SPEED :: int where "DEFAULT_SNAKE_SPEED \<equiv> 100"

text \<open>The largest value of the 32-bit \<open>int\<close>, and \<open>x++\<close> (or \<open>x += 1\<close>) on an \<open>int\<close>: at
  \<open>INT_MAX\<close> the addition overflows and C++ defines no result.\<close>

abbreviation INT_MAX :: int where "INT_MAX \<equiv> 2147483647"

definition int_increment :: "int \<Rightarrow> int option" where
  "int_increment x = (if x < INT_MAX then Some (x + 1) else None)"

datatype GameState = MAIN_MENU | CONFIG_MENU | MODE_MENU | PLAYING | PAUSED | QUIT

datatype ConfigOption = SPEED | NUM_FOOD | NUM_OBSTACLES | AMPLITUDE | WAVE_SPEED | EXIT

datatype GameMode = NORMAL | FLASHLIGHT

text \<open>The enum's underlying values: \<open>(int)ConfigOption::EXIT\<close> is 5, and the cast
  \<open>(ConfigOption)configOption\<close> of an integer outside 0..5 matches no case of a switch.\<close>

fun int_of_ConfigOption :: "ConfigOption \<Rightarrow> int" where
  "int_of_ConfigOption SPEED = 0"
| "int_of_ConfigOption NUM_FOOD = 1"
| "int_of_ConfigOption NUM_OBSTACLES = 2"
| "int_of_ConfigOption AMPLITUDE = 3"
| "int_of_ConfigOption WAVE_SPEED = 4"
| "int_of_ConfigOption EXIT = 5"

definition ConfigOption_of_int :: "int \<Rightarrow> ConfigOption option" where
  "ConfigOption_of_int i =
     (if i = 0 then Some SPEED
      else if i = 1 then Some NUM_FOOD
      else if i = 2 then Some NUM_OBSTACLES
      else if i = 3 then Some AMPLITUDE
      else if i = 4 then Some WAVE_SPEED
      else if i = 5 then Some EXIT
      else None)"

text \<open>\<open>struct Point { int x; int y; }\<close> with its field-wise \<open>operator==\<close>; the fields are
  named \<open>px\<close> and \<open>py\<close> here.\<close>

record Point =
  px :: int
  py :: int

text \<open>\<open>struct Sparkle { float x, y; float life; }\<close>.\<close>

record 'f Sparkle =
  sx :: 'f
  sy :: 'f
  life :: 'f

text \<open>The float operations of the modelled functions: a decimal literal
  (\<open>f_lit m e\<close> is the float written \<open>m\<close> times ten to the minus \<open>e\<close>, so \<open>0.05f\<close> is
  \<open>f_lit 5 2\<close>), the conversion from \<open>int\<close>, \<open>+\<close>, \<open>-\<close>, \<open><\<close> and \<open><=\<close>.\<close>

record 'f float_ops =
  f_lit :: "int \<Rightarrow> nat \<Rightarrow> 'f"
  f_of_int :: "int \<Rightarrow> 'f"
  f_add :: "'f \<Rightarrow> 'f \<Rightarrow> 'f"
  f_sub :: "'f \<Rightarrow> 'f \<Rightarrow> 'f"
  f_less :: "'f \<Rightarrow> 'f \<Rightarrow> bool"
  f_le :: "'f \<Rightarrow> 'f \<Rightarrow> bool"

text \<open>\<open>std::max(a, b)\<close> is \<open>(a < b) ? b : a\<close>.\<close>

definition f_max :: "'f float_ops \<Rightarrow> 'f \<Rightarrow> 'f \<Rightarrow> 'f" where
  "f_max F a b = (if f_less F a b then b else a)"

record 'f Application =
  state :: GameState
  gameMode :: GameMode
  running :: bool
  snake :: "Point list"
  foodItems :: "Point list"
  obstacles :: "Point list"
  direction :: Point
  lastMoveTime :: "32 word"
  score :: int
  highScore :: int
  animationTime :: 'f
  sparkles :: "'f Sparkle list"
  selectedOption :: int
  pauseMenuOption :: int
  configOption :: int
  modeMenuOption :: int
  snakeSpeed :: int
  numFoodItems :: int
  numObstacles :: int
  grassWaveSpeed :: 'f
  grassWaveAmplitude :: 'f

datatype SDL_Keycode =
    SDLK_ESCAPE | SDLK_UP | SDLK_w | SDLK_DOWN | SDLK_s
  | SDLK_LEFT | SDLK_a | SDLK_RIGHT | SDLK_d | SDLK_RETURN | SDLK_other

datatype SDL_Event = SDL_QUIT | SDL_KEYDOWN SDL_Keycode | SDL_other_event

text \<open>The constructor's member initialisers.\<close>

definition Application_init :: "'f float_ops \<Rightarrow> 'f Application" where
  "Application_init F =
     \<lparr> state = MAIN_MENU, gameMode = NORMAL, running = True,
       snake = [], foodItems = [], obstacles = [],
       direction = \<lparr>px = 1, py = 0\<rparr>, lastMoveTime = 0,
       score = 0, highScore = 0,
       animationTime = f_lit F 0 1, sparkles = [],
       selectedOption = 0, pauseMenuOption = 0, configOption = 0, modeMenuOption = 0,
       snakeSpeed = DEFAULT_SNAKE_SPEED, numFoodItems = 10, numObstacles = 15,
       grassWaveSpeed = f_lit F 5 2, grassWaveAmplitude = f_lit F 150 1 \<rparr>"

section \<open>Spawning food and obstacles\<close>

text \<open>One pass of \<open>while (!validPos)\<close> in \<open>spawnFood\<close>: two calls of \<open>std::rand()\<close> give
  the candidate cell, which is kept when it equals no snake segment and no obstacle, and
  drawn again otherwise.\<close>

fun spawnFood_cell :: "Point list \<Rightarrow> Point list \<Rightarrow> nat list \<Rightarrow> (Point \<times> nat list) option" where
  "spawnFood_cell snk obs (r1 # r2 # rs) =
     (let food = \<lparr>px = (int r1 mod (SCREEN_WIDTH div GRID_SIZE)) * GRID_SIZE,
                  py = (int r2 mod (SCREEN_HEIGHT div GRID_SIZE)) * GRID_SIZE\<rparr>
      in if food \<notin> set snk \<and> food \<notin> set obs then Some (food, rs)
         else spawnFood_cell snk obs rs)"
| "spawnFood_cell snk obs rs = None"

text \<open>The \<open>for\<close> loop of \<open>spawnFood\<close>, with the number of iterations left.\<close>

fun spawnFood_loop ::
  "nat \<Rightarrow> 'f Application \<Rightarrow> nat list \<Rightarrow> ('f Application \<times> nat list) option" where
  "spawnFood_loop 0 s rs = Some (s, rs)"
| "spawnFood_loop (Suc n) s rs =
     (case spawnFood_cell (snake s) (obstacles s) rs of
        None \<Rightarrow> None
      | Some (food, rs') \<Rightarrow> spawnFood_loop n (s\<lparr>foodItems := foodItems s @ [food]\<rparr>) rs')"

definition spawnFood :: "'f Application \<Rightarrow> nat list \<Rightarrow> ('f Application \<times> nat list) option" where
  "spawnFood s rs = spawnFood_loop (nat (numFoodItems s)) s rs"

text \<open>\<open>spawnObstacles\<close>: the same loops, checking the snake and the food.\<close>

fun spawnObstacles_cell :: "Point list \<Rightarrow> Point list \<Rightarrow> nat list \<Rightarrow> (Point \<times> nat list) option" where
  "spawnObstacles_cell snk fd (r1 # r2 # rs) =
     (let obs = \<lparr>px = (int r1 mod (SCREEN_WIDTH div GRID_SIZE)) * GRID_SIZE,
                 py = (int r2 mod (SCREEN_HEIGHT div GRID_SIZE)) * GRID_SIZE\<rparr>
      in if obs \<notin> set snk \<and> obs \<notin> set fd then Some (obs, rs)
         else spawnObstacles_cell snk fd rs)"
| "spawnObstacles_cell snk fd rs = None"

fun spawnObstacles_loop ::
  "nat \<Rightarrow> 'f Application \<Rightarrow> nat list \<Rightarrow> ('f Application \<times> nat list) option" where
  "spawnObstacles_loop 0 s rs = Some (s, rs)"
| "spawnObstacles_loop (Suc n) s rs =
     (case spawnObstacles_cell (snake s) (foodItems s) rs of
        None \<Rightarrow> None
      | Some (obs, rs') \<Rightarrow> spawnObstacles_loop n (s\<lparr>obstacles := obstacles s @ [obs]\<rparr>) rs')"

definition spawnObstacles ::
  "int \<Rightarrow> 'f Application \<Rightarrow> nat list \<Rightarrow> ('f Application \<times> nat list) option" where
  "spawnObstacles count s rs = spawnObstacles_loop (nat count) s rs"

section \<open>Starting and resetting a game\<close>

definition resetGame :: "'f Application \<Rightarrow> nat list \<Rightarrow> ('f Application \<times> nat list) option" where
  "resetGame s rs =
     (let s1 = s\<lparr>snake := [\<lparr>px = SCREEN_WIDTH div 2, py = SCREEN_HEIGHT div 2\<rparr>],
                 direction := \<lparr>px = 1, py = 0\<rparr>,
                 score := 0,
                 foodItems := [],
                 obstacles := []\<rparr>
      in case spawnFood s1 rs of
           None \<Rightarrow> None
         | Some (s2, rs2) \<Rightarrow> spawnObstacles (numObstacles s2) s2 rs2)"

definition startGame :: "'f Application \<Rightarrow> nat list \<Rightarrow> ('f Application \<times> nat list) option" where
  "startGame s rs = resetGame (s\<lparr>state := PLAYING\<rparr>) rs"

section \<open>Menus and key presses\<close>

definition mainMenuSelection ::
  "'f Application \<Rightarrow> nat list \<Rightarrow> ('f Application \<times> nat list) option" where
  "mainMenuSelection s rs =
     (if selectedOption s = 0 then startGame s rs
      else if selectedOption s = 1 then Some (s\<lparr>state := CONFIG_MENU\<rparr>, rs)
      else if selectedOption s = 2 then Some (s\<lparr>state := MODE_MENU\<rparr>, rs)
      else if selectedOption s = 3 then Some (s\<lparr>state := QUIT\<rparr>, rs)
      else Some (s, rs))"

text \<open>\<open>adjustConfigOption\<close>. The three \<open>int\<close> increments have no result at \<open>INT_MAX\<close>;
  the decrements run only under the source's own tests (\<open>snakeSpeed > 1\<close>,
  \<open>numFoodItems > 0\<close>, \<open>numObstacles > 0\<close>) and cannot overflow.\<close>

definition adjustConfigOption ::
  "'f float_ops \<Rightarrow> bool \<Rightarrow> 'f Application \<Rightarrow> 'f Application option" where
  "adjustConfigOption F increase s =
     (case ConfigOption_of_int (configOption s) of
        Some SPEED \<Rightarrow>
          (if increase
           then Some (s\<lparr>snakeSpeed := (if snakeSpeed s > 1 then snakeSpeed s - 1 else - 20)\<rparr>)
           else map_option (\<lambda>v. s\<lparr>snakeSpeed := v\<rparr>) (int_increment (snakeSpeed s)))
      | Some NUM_FOOD \<Rightarrow>
          (if increase
           then map_option (\<lambda>v. s\<lparr>numFoodItems := v\<rparr>) (int_increment (numFoodItems s))
           else if numFoodItems s > 0 then Some (s\<lparr>numFoodItems := numFoodItems s - 1\<rparr>)
           else Some s)
      | Some NUM_OBSTACLES \<Rightarrow>
          (if increase
           then map_option (\<lambda>v. s\<lparr>numObstacles := v\<rparr>) (int_increment (numObstacles s))
           else if numObstacles s > 0 then Some (s\<lparr>numObstacles := numObstacles s - 1\<rparr>)
           else Some s)
      | Some AMPLITUDE \<Rightarrow>
          (if increase
           then Some (s\<lparr>grassWaveAmplitude := f_add F (grassWaveAmplitude s) (f_lit F 1 0)\<rparr>)
           else Some (s\<lparr>grassWaveAmplitude :=
                    f_max F (f_lit F 0 1) (f_sub F (grassWaveAmplitude s) (f_lit F 1 0))\<rparr>))
      | Some WAVE_SPEED \<Rightarrow>
          (if increase
           then Some (s\<lparr>grassWaveSpeed := f_add F (grassWaveSpeed s) (f_lit F 1 2)\<rparr>)
           else Some (s\<lparr>grassWaveSpeed :=
                    f_max F (f_lit F 0 1) (f_sub F (grassWaveSpeed s) (f_lit F 1 2))\<rparr>))
      | Some EXIT \<Rightarrow> Some (s\<lparr>state := MAIN_MENU\<rparr>)
      | None \<Rightarrow> Some s)"

definition modeSelection :: "'f Application \<Rightarrow> 'f Application" where
  "modeSelection s =
     (if modeMenuOption s = 0 then s\<lparr>gameMode := NORMAL\<rparr> else s\<lparr>gameMode := FLASHLIGHT\<rparr>)
       \<lparr>state := MAIN_MENU\<rparr>"

text \<open>\<open>onKeyDown\<close>, one definition per group of \<open>case\<close> labels. C++ \<open>%\<close> truncates
  towards zero: \<open>smod\<close>.\<close>

definition onKeyDown_escape :: "'f Application \<Rightarrow> 'f Application" where
  "onKeyDown_escape s =
     (if state s = PLAYING then s\<lparr>state := PAUSED\<rparr>
      else if state s = PAUSED then s\<lparr>state := PLAYING\<rparr>
      else if state s = CONFIG_MENU \<or> state s = MODE_MENU then s\<lparr>state := MAIN_MENU\<rparr>
      else s)"

definition onKeyDown_up :: "'f Application \<Rightarrow> 'f Application" where
  "onKeyDown_up s =
     (if state s = MAIN_MENU then s\<lparr>selectedOption := (selectedOption s + 3) smod 4\<rparr>
      else if state s = PLAYING \<and> py (direction s) = 0
        then s\<lparr>direction := \<lparr>px = 0, py = - 1\<rparr>\<rparr>
      else if state s = PAUSED
        then s\<lparr>pauseMenuOption := (if pauseMenuOption s = 0 then 1 else 0)\<rparr>
      else if state s = CONFIG_MENU
        then s\<lparr>configOption :=
                 (if configOption s = 0 then int_of_ConfigOption EXIT else configOption s - 1)\<rparr>
      else if state s = MODE_MENU
        then s\<lparr>modeMenuOption := (if modeMenuOption s = 0 then 1 else 0)\<rparr>
      else s)"

definition onKeyDown_down :: "'f Application \<Rightarrow> 'f Application" where
  "onKeyDown_down s =
     (if state s = MAIN_MENU then s\<lparr>selectedOption := (selectedOption s + 1) smod 4\<rparr>
      else if state s = PLAYING \<and> py (direction s) = 0
        then s\<lparr>direction := \<lparr>px = 0, py = 1\<rparr>\<rparr>
      else if state s = PAUSED
        then s\<lparr>pauseMenuOption := (if pauseMenuOption s = 0 then 1 else 0)\<rparr>
      else if state s = CONFIG_MENU
        then s\<lparr>configOption := (configOption s + 1) smod (int_of_ConfigOption EXIT + 1)\<rparr>
      else if state s = MODE_MENU
        then s\<lparr>modeMenuOption := (if modeMenuOption s = 0 then 1 else 0)\<rparr>
      else s)"

definition onKeyDown_left :: "'f float_ops \<Rightarrow> 'f Application \<Rightarrow> 'f Application option" where
  "onKeyDown_left F s =
     (if state s = PLAYING \<and> px (direction s) = 0
        then Some (s\<lparr>direction := \<lparr>px = - 1, py = 0\<rparr>\<rparr>)
      else if state s = CONFIG_MENU then adjustConfigOption F False s
      else Some s)"

definition onKeyDown_right :: "'f float_ops \<Rightarrow> 'f Application \<Rightarrow> 'f Application option" where
  "onKeyDown_right F s =
     (if state s = PLAYING \<and> px (direction s) = 0
        then Some (s\<lparr>direction := \<lparr>px = 1, py = 0\<rparr>\<rparr>)
      else if state s = CONFIG_MENU then adjustConfigOption F True s
      else Some s)"

definition onKeyDown_return ::
  "'f Application \<Rightarrow> nat list \<Rightarrow> ('f Application \<times> nat list) option" where
  "onKeyDown_return s rs =
     (if state s = MAIN_MENU then mainMenuSelection s rs
      else if state s = PAUSED
        then (if pauseMenuOption s = 0 then Some (s\<lparr>state := PLAYING\<rparr>, rs)
              else Some (s\<lparr>state := MAIN_MENU\<rparr>, rs))
      else if state s = MODE_MENU then Some (modeSelection s, rs)
      else Some (s, rs))"

fun onKeyDown ::
  "'f float_ops \<Rightarrow> SDL_Keycode \<Rightarrow> 'f Application \<Rightarrow> nat list
     \<Rightarrow> ('f Application \<times> nat list) option" where
  "onKeyDown F SDLK_ESCAPE s rs = Some (onKeyDown_escape s, rs)"
| "onKeyDown F SDLK_UP s rs = Some (onKeyDown_up s, rs)"
| "onKeyDown F SDLK_w s rs = Some (onKeyDown_up s, rs)"
| "onKeyDown F SDLK_DOWN s rs = Some (onKeyDown_down s, rs)"
| "onKeyDown F SDLK_s s rs = Some (onKeyDown_down s, rs)"
| "onKeyDown F SDLK_LEFT s rs = map_option (\<lambda>s'. (s', rs)) (onKeyDown_left F s)"
| "onKeyDown F SDLK_a s rs = map_option (\<lambda>s'. (s', rs)) (onKeyDown_left F s)"
| "onKeyDown F SDLK_RIGHT s rs = map_option (\<lambda>s'. (s', rs)) (onKeyDown_right F s)"
| "onKeyDown F SDLK_d s rs = map_option (\<lambda>s'. (s', rs)) (onKeyDown_right F s)"
| "onKeyDown F SDLK_RETURN s rs = onKeyDown_return s rs"
| "onKeyDown F SDLK_other s rs = Some (s, rs)"

text \<open>The body of the polling loop of \<open>handleEvents\<close>, for one event.\<close>

fun handleEvent ::
  "'f float_ops \<Rightarrow> SDL_Event \<Rightarrow> 'f Application \<Rightarrow> nat list
     \<Rightarrow> ('f Application \<times> nat list) option" where
  "handleEvent F SDL_QUIT s rs = Some (s\<lparr>running := False, state := QUIT\<rparr>, rs)"
| "handleEvent F (SDL_KEYDOWN key) s rs = onKeyDown F key s rs"
| "handleEvent F SDL_other_event s rs = Some (s, rs)"

section \<open>The update step\<close>

text \<open>The new head of \<open>update\<close>: one grid step from the head in the current direction,
  then the two wrap tests.\<close>

definition newHead :: "Point \<Rightarrow> Point \<Rightarrow> Point" where
  "newHead h d =
     (let nx = px h + px d * GRID_SIZE;
          ny = py h + py d * GRID_SIZE;
          nx' = (if nx < 0 then SCREEN_WIDTH - GRID_SIZE
                 else if nx \<ge> SCREEN_WIDTH then 0 else nx);
          ny' = (if ny < 0 then SCREEN_HEIGHT - GRID_SIZE
                 else if ny \<ge> SCREEN_HEIGHT then 0 else ny)
      in \<lparr>px = nx', py = ny'\<rparr>)"

text \<open>The two statements that end \<open>update\<close>: every sparkle loses \<open>0.05f\<close> of life, then
  the erase-remove idiom drops those with \<open>life <= 0.f\<close>.\<close>

definition decaySparkles :: "'f float_ops \<Rightarrow> 'f Application \<Rightarrow> 'f Application" where
  "decaySparkles F s =
     s\<lparr>sparkles :=
         filter (\<lambda>sp. \<not> f_le F (life sp) (f_lit F 0 0))
           (map (\<lambda>sp. sp\<lparr>life := f_sub F (life sp) (f_lit F 5 2)\<rparr>) (sparkles s))\<rparr>"

text \<open>The sparkle that the loop of \<open>handleCollision\<close> pushes 20 times: centred on
  \<open>snake[0]\<close> (\<open>GRID_SIZE / 2\<close> is an \<open>int\<close> division, converted to float for the sum),
  with life \<open>1.0f\<close>.\<close>

definition collisionSparkle :: "'f float_ops \<Rightarrow> Point \<Rightarrow> 'f Sparkle" where
  "collisionSparkle F h =
     \<lparr>sx = f_add F (f_of_int F (px h)) (f_of_int F (GRID_SIZE div 2)),
      sy = f_add F (f_of_int F (py h)) (f_of_int F (GRID_SIZE div 2)),
      life = f_lit F 10 1\<rparr>"

text \<open>\<open>handleCollision\<close> reads \<open>snake[0]\<close>; \<open>update\<close> calls it only with a snake that is
  not empty, and on an empty vector the read has no defined result (\<open>None\<close>).\<close>

definition handleCollision ::
  "'f float_ops \<Rightarrow> 'f Application \<Rightarrow> nat list \<Rightarrow> ('f Application \<times> nat list) option" where
  "handleCollision F s rs =
     (case snake s of
        [] \<Rightarrow> None
      | h # _ \<Rightarrow>
          (let s1 = s\<lparr>sparkles := sparkles s @ replicate 20 (collisionSparkle F h)\<rparr>;
               s2 = (if score s1 > highScore s1 then s1\<lparr>highScore := score s1\<rparr> else s1)
           in resetGame s2 rs))"

text \<open>The test that ends \<open>update\<close> early: \<open>currentTime - lastMoveTime < (Uint32)snakeSpeed\<close>
  on unsigned 32-bit values.\<close>

definition waiting :: "32 word \<Rightarrow> 'f Application \<Rightarrow> bool" where
  "waiting currentTime s \<longleftrightarrow> currentTime - lastMoveTime s < word_of_int (snakeSpeed s)"

text \<open>\<open>update\<close>; \<open>currentTime\<close> is what \<open>SDL_GetTicks()\<close> returns in this call.\<close>

definition update ::
  "'f float_ops \<Rightarrow> 32 word \<Rightarrow> 'f Application \<Rightarrow> nat list
     \<Rightarrow> ('f Application \<times> nat list) option" where
  "update F currentTime s rs =
     (let s0 = s\<lparr>animationTime := f_add F (animationTime s) (f_lit F 2 2)\<rparr>
      in if state s0 \<noteq> PLAYING then Some (s0, rs)
         else if waiting currentTime s0 then Some (s0, rs)
         else
           (let s1 = s0\<lparr>lastMoveTime := currentTime\<rparr>
            in case snake s1 of
                 [] \<Rightarrow> Some (decaySparkles F s1, rs)
               | h # _ \<Rightarrow>
                   (let nh = newHead h (direction s1)
                    in if nh \<in> set (snake s1) then handleCollision F s1 rs
                       else if nh \<in> set (obstacles s1) then handleCollision F s1 rs
                       else
                         (let s2 = s1\<lparr>snake := nh # snake s1\<rparr>
                          in if nh \<in> set (foodItems s2)
                             then
                               (let s3 = s2\<lparr>score := score s2 + 1\<rparr>;
                                    s4 = (if score s3 > highScore s3
                                          then s3\<lparr>highScore := score s3\<rparr> else s3);
                                    s5 = s4\<lparr>foodItems := []\<rparr>
                                in case spawnFood s5 rs of
                                     None \<Rightarrow> None
                                   | Some (s6, rs6) \<Rightarrow>
                                       (case spawnObstacles 5 s6 rs6 of
                                          None \<Rightarrow> None
                                        | Some (s7, rs7) \<Rightarrow> Some (decaySparkles F s7, rs7)))
                             else Some (decaySparkles F (s2\<lparr>snake := butlast (snake s2)\<rparr>), rs)))))"

section \<open>Reachable states\<close>

text \<open>\<open>run\<close> alternates \<open>handleEvents\<close> (any number of events) and \<open>update\<close>, starting
  from the constructed object; every state the program visits is reachable in this
  sense, whatever the events, the clock and \<open>std::rand()\<close> deliver.\<close>

inductive reachable :: "'f float_ops \<Rightarrow> 'f Application \<Rightarrow> bool" for F :: "'f float_ops" where
  reachable_init: "reachable F (Application_init F)"
| reachable_event:
    "reachable F s \<Longrightarrow> handleEvent F e s rs = Some (s', rs') \<Longrightarrow> reachable F s'"
| reachable_update:
    "reachable F s \<Longrightarrow> update F t s rs = Some (s', rs') \<Longrightarrow> reachable F s'"

text \<open>An exact interpretation of the float operations over the rationals, to run the
  model on concrete inputs.\<close>

definition exact_ops :: "rat float_ops" where
  "exact_ops =
     \<lparr> f_lit = (\<lambda>m e. of_int m / 10 ^ e), f_of_int = of_int,
       f_add = (+), f_sub = (-), f_less = (<), f_le = (\<le>) \<rparr>"

section \<open>Predicates and sample states for the properties\<close>

text \<open>A cell of the 40 by 30 grid: both coordinates inside the canvas and multiples of the
  grid size.\<close>

definition on_grid :: "Point \<Rightarrow> bool" where
  "on_grid p \<longleftrightarrow>
     0 \<le> px p \<and> px p < SCREEN_WIDTH \<and> px p mod GRID_SIZE = 0 \<and>
     0 \<le> py p \<and> py p < SCREEN_HEIGHT \<and> py p mod GRID_SIZE = 0"

text \<open>The four directions of motion.\<close>

definition unit_dir :: "Point \<Rightarrow> bool" where
  "unit_dir d \<longleftrightarrow>
     d = \<lparr>px = 1, py = 0\<rparr> \<or> d = \<lparr>px = - 1, py = 0\<rparr> \<or>
     d = \<lparr>px = 0, py = 1\<rparr> \<or> d = \<lparr>px = 0, py = - 1\<rparr>"


abbreviation center :: Point where
  "center \<equiv> \<lparr>px = SCREEN_WIDTH div 2, py = SCREEN_HEIGHT div 2\<rparr>"

text \<open>The first statement of \<open>update\<close>, \<open>animationTime += 0.02f\<close>, which runs in every
  state.\<close>

abbreviation animate :: "'f float_ops \<Rightarrow> 'f Application \<Rightarrow> 'f Application" where
  "animate F s \<equiv> s\<lparr>animationTime := f_add F (animationTime s) (f_lit F 2 2)\<rparr>"

text \<open>A run of the program: the values \<open>std::rand()\<close> returns while the first game is
  set up (ten food cells, the first one right of the centre, then fifteen obstacles on
  the cell above the centre), and the state once "Start Game" has been confirmed.\<close>

definition start_tape :: "nat list" where
  "start_tape =
     [21, 15, 0, 0, 0, 0, 0, 0, 0, 0, 0, 0, 0, 0, 0, 0, 0, 0, 0, 0,
      20, 14, 20, 14, 20, 14, 20, 14, 20, 14, 20, 14, 20, 14, 20, 14,
      20, 14, 20, 14, 20, 14, 20, 14, 20, 14, 20, 14, 20, 14]"

definition playing_example :: "rat Application" where
  "playing_example =
     (Application_init exact_ops)
       \<lparr> state := PLAYING,
         snake := [center],
         foodItems := \<lparr>px = 420, py = 300\<rparr> # replicate 9 \<lparr>px = 0, py = 0\<rparr>,
         obstacles := replicate 15 \<lparr>px = 400, py = 280\<rparr> \<rparr>"

text \<open>The configuration menu with the speed item highlighted and a movement interval
  of \<open>n\<close>.\<close>

definition config_menu_example :: "int \<Rightarrow> rat Application" where
  "config_menu_example n =
     (Application_init exact_ops)\<lparr>state := CONFIG_MENU, configOption := 0, snakeSpeed := n\<rparr>"

text \<open>The tape on which \<open>n\<close> draws in a row each give the cell \<open>p\<close>.\<close>

definition cell_tape :: "Point \<Rightarrow> nat \<Rightarrow> nat list" where
  "cell_tape p n = concat (replicate n [nat (px p div GRID_SIZE), nat (py p div GRID_SIZE)])"

text \<open>A state to spawn into: the snake at the centre, one obstacle in the corner, no
  food yet and a configured food count of 2.\<close>

definition spawn_example :: "rat Application" where
  "spawn_example =
     playing_example\<lparr>numFoodItems := 2, foodItems := [], obstacles := [\<lparr>px = 0, py = 0\<rparr>]\<rparr>"

text \<open>The sample game after the up key: the cell above the head holds an obstacle. And
  the state after the update that runs into it, at tick 100, with the same values of
  \<open>std::rand()\<close> for the new game.\<close>

definition turned_example :: "rat Application" where
  "turned_example = playing_example\<lparr>direction := \<lparr>px = 0, py = - 1\<rparr>\<rparr>"

definition crashed_example :: "rat Application" where
  "crashed_example =
     playing_example
       \<lparr> animationTime := 1 / 50, lastMoveTime := 100,
         sparkles := replicate 20 \<lparr>sx = 410, sy = 310, life = 1\<rparr> \<rparr>"

text \<open>The values of \<open>std::rand()\<close> while the sample game eats the food ahead (ten new
  food cells in the corner, five obstacles beside it), and the state after that update at
  tick 100.\<close>

definition eat_tape :: "nat list" where
  "eat_tape =
     [0, 0, 0, 0, 0, 0, 0, 0, 0, 0, 0, 0, 0, 0, 0, 0, 0, 0, 0, 0,
      1, 0, 1, 0, 1, 0, 1, 0, 1, 0]"

definition eaten_example :: "rat Application" where
  "eaten_example =
     playing_example
       \<lparr> animationTime := 1 / 50, lastMoveTime := 100,
         snake := [\<lparr>px = 420, py = 300\<rparr>, center],
         score := 1, highScore := 1,
         foodItems := replicate 10 \<lparr>px = 0, py = 0\<rparr>,
         obstacles := replicate 15 \<lparr>px = 400, py = 280\<rparr> @ replicate 5 \<lparr>px = 20, py = 0\<rparr> \<rparr>"

text \<open>The sample game with the movement interval that "speed up" sets from 1.\<close>

definition stalled_example :: "rat Application" where
  "stalled_example = playing_example\<lparr>snakeSpeed := - 20\<rparr>"

text \<open>The configuration menu with "Back to Main Menu" highlighted.\<close>

definition config_exit_example :: "rat Application" where
  "config_exit_example =
     (Application_init exact_ops)\<lparr>state := CONFIG_MENU, configOption := int_of_ConfigOption EXIT\<rparr>"

text \<open>The game after the collision, turned up again towards the respawned obstacle.\<close>

definition crashed_turned_example :: "rat Application" where
  "crashed_turned_example = crashed_example\<lparr>direction := \<lparr>px = 0, py = - 1\<rparr>\<rparr>"


section \<open>What the spawning loops return\<close>

text \<open>A cell that a spawning loop returns is on the grid and is none of the cells it was
  checked against; the loops append exactly the number of cells asked for.\<close>

lemma spawnFood_cell_Some:
  "spawnFood_cell snk obs rs = Some (p, rs') \<Longrightarrow> p \<notin> set snk \<and> p \<notin> set obs \<and> on_grid p"
proof (induction snk obs rs rule: spawnFood_cell.induct)
  case (1 snk obs r1 r2 rs)
  then show ?case
    by (auto simp: Let_def on_grid_def split: if_splits)
qed simp_all

lemma spawnObstacles_cell_Some:
  "spawnObstacles_cell snk fd rs = Some (p, rs') \<Longrightarrow> p \<notin> set snk \<and> p \<notin> set fd \<and> on_grid p"
proof (induction snk fd rs rule: spawnObstacles_cell.induct)
  case (1 snk fd r1 r2 rs)
  then show ?case
    by (auto simp: Let_def on_grid_def split: if_splits)
qed simp_all

lemma spawnFood_loop_Some:
  "spawnFood_loop n s rs = Some (s', rs') \<Longrightarrow>
   \<exists>new. s' = s\<lparr>foodItems := foodItems s @ new\<rparr> \<and> length new = n \<and>
         (\<forall>p\<in>set new. p \<notin> set (snake s) \<and> p \<notin> set (obstacles s) \<and> on_grid p)"
proof (induction n arbitrary: s rs)
  case 0
  then show ?case by simp
next
  case (Suc n)
  from Suc.prems obtain food rs1 where
    c: "spawnFood_cell (snake s) (obstacles s) rs = Some (food, rs1)" and
    l: "spawnFood_loop n (s\<lparr>foodItems := foodItems s @ [food]\<rparr>) rs1 = Some (s', rs')"
    by (auto split: option.splits)
  from Suc.IH [OF l] obtain new where
    n: "s' = s\<lparr>foodItems := foodItems s @ [food] @ new\<rparr>" "length new = n"
       "\<forall>p\<in>set new. p \<notin> set (snake s) \<and> p \<notin> set (obstacles s) \<and> on_grid p"
    by auto
  from spawnFood_cell_Some [OF c] n show ?case
    by (intro exI [of _ "food # new"]) simp
qed

lemma spawnObstacles_loop_Some:
  "spawnObstacles_loop n s rs = Some (s', rs') \<Longrightarrow>
   \<exists>new. s' = s\<lparr>obstacles := obstacles s @ new\<rparr> \<and> length new = n \<and>
         (\<forall>p\<in>set new. p \<notin> set (snake s) \<and> p \<notin> set (foodItems s) \<and> on_grid p)"
proof (induction n arbitrary: s rs)
  case 0
  then show ?case by simp
next
  case (Suc n)
  from Suc.prems obtain ob rs1 where
    c: "spawnObstacles_cell (snake s) (foodItems s) rs = Some (ob, rs1)" and
    l: "spawnObstacles_loop n (s\<lparr>obstacles := obstacles s @ [ob]\<rparr>) rs1 = Some (s', rs')"
    by (auto split: option.splits)
  from Suc.IH [OF l] obtain new where
    n: "s' = s\<lparr>obstacles := obstacles s @ [ob] @ new\<rparr>" "length new = n"
       "\<forall>p\<in>set new. p \<notin> set (snake s) \<and> p \<notin> set (foodItems s) \<and> on_grid p"
    by auto
  from spawnObstacles_cell_Some [OF c] n show ?case
    by (intro exI [of _ "ob # new"]) simp
qed


section \<open>The invariant of the reachable states\<close>


lemma spawnFood_Some:
  "spawnFood s rs = Some (s', rs') \<Longrightarrow>
   \<exists>new. s' = s\<lparr>foodItems := foodItems s @ new\<rparr> \<and> length new = nat (numFoodItems s) \<and>
         (\<forall>p\<in>set new. p \<notin> set (snake s) \<and> p \<notin> set (obstacles s) \<and> on_grid p)"
  unfolding spawnFood_def by (rule spawnFood_loop_Some)

lemma spawnObstacles_Some:
  "spawnObstacles count s rs = Some (s', rs') \<Longrightarrow>
   \<exists>new. s' = s\<lparr>obstacles := obstacles s @ new\<rparr> \<and> length new = nat count \<and>
         (\<forall>p\<in>set new. p \<notin> set (snake s) \<and> p \<notin> set (foodItems s) \<and> on_grid p)"
  unfolding spawnObstacles_def by (rule spawnObstacles_loop_Some)

lemma resetGame_Some:
  assumes "resetGame s rs = Some (s', rs')"
  shows "\<exists>fd ob.
           s' = s\<lparr>snake := [center], direction := \<lparr>px = 1, py = 0\<rparr>, score := 0,
                  foodItems := fd, obstacles := ob\<rparr> \<and>
           length fd = nat (numFoodItems s) \<and> length ob = nat (numObstacles s) \<and>
           (\<forall>p\<in>set fd. p \<noteq> center \<and> on_grid p) \<and>
           (\<forall>p\<in>set ob. p \<noteq> center \<and> p \<notin> set fd \<and> on_grid p)"
proof -
  define s1 where "s1 = s\<lparr>snake := [center], direction := \<lparr>px = 1, py = 0\<rparr>, score := 0,
                  foodItems := [], obstacles := []\<rparr>"
  from assms obtain s2 rs2 where
    f: "spawnFood s1 rs = Some (s2, rs2)" and
    o: "spawnObstacles (numObstacles s2) s2 rs2 = Some (s', rs')"
    by (auto simp: resetGame_def s1_def Let_def split: option.splits)
  from spawnFood_Some [OF f] obtain fd where
    fd: "s2 = s1\<lparr>foodItems := fd\<rparr>" "length fd = nat (numFoodItems s)"
        "\<forall>p\<in>set fd. p \<noteq> center \<and> on_grid p"
    by (auto simp: s1_def)
  from spawnObstacles_Some [OF o] obtain ob where
    ob: "s' = s2\<lparr>obstacles := ob\<rparr>" "length ob = nat (numObstacles s)"
        "\<forall>p\<in>set ob. p \<noteq> center \<and> p \<notin> set fd \<and> on_grid p"
    by (auto simp: fd s1_def)
  show ?thesis
    using fd ob by (intro exI [of _ fd] exI [of _ ob]) (simp add: s1_def)
qed
















lemma handleCollision_Some:
  assumes "handleCollision F s rs = Some (s', rs')"
  shows "\<exists>h rest fd ob.
           snake s = h # rest \<and>
           s' = s\<lparr>sparkles := sparkles s @ replicate 20 (collisionSparkle F h),
                  highScore := (if score s > highScore s then score s else highScore s),
                  snake := [center], direction := \<lparr>px = 1, py = 0\<rparr>, score := 0,
                  foodItems := fd, obstacles := ob\<rparr> \<and>
           length fd = nat (numFoodItems s) \<and> length ob = nat (numObstacles s) \<and>
           (\<forall>p\<in>set fd. p \<noteq> center \<and> on_grid p) \<and>
           (\<forall>p\<in>set ob. p \<noteq> center \<and> p \<notin> set fd \<and> on_grid p)"
proof -
  from assms obtain h rest where sn: "snake s = h # rest"
    by (cases "snake s") (simp_all add: handleCollision_def)
  define s2 where "s2 = s\<lparr>sparkles := sparkles s @ replicate 20 (collisionSparkle F h),
                  highScore := (if score s > highScore s then score s else highScore s)\<rparr>"
  have "s2 = (let s1 = s\<lparr>sparkles := sparkles s @ replicate 20 (collisionSparkle F h)\<rparr>
              in if score s1 > highScore s1 then s1\<lparr>highScore := score s1\<rparr> else s1)"
    by (simp add: s2_def Let_def)
  then have "resetGame s2 rs = Some (s', rs')"
    using assms sn by (simp add: handleCollision_def Let_def collisionSparkle_def)
  from resetGame_Some [OF this] obtain fd ob where
    r: "s' = s2\<lparr>snake := [center], direction := \<lparr>px = 1, py = 0\<rparr>, score := 0,
                  foodItems := fd, obstacles := ob\<rparr>"
       "length fd = nat (numFoodItems s2)" "length ob = nat (numObstacles s2)"
       "\<forall>p\<in>set fd. p \<noteq> center \<and> on_grid p"
       "\<forall>p\<in>set ob. p \<noteq> center \<and> p \<notin> set fd \<and> on_grid p"
    by blast
  show ?thesis
    apply (rule exI [of _ h], rule exI [of _ rest], rule exI [of _ fd], rule exI [of _ ob])
    using r sn by (simp add: s2_def)
qed



section \<open>The branches of the update step\<close>

lemma waiting_animate [simp]: "waiting t (s\<lparr>animationTime := a\<rparr>) = waiting t s"
  by (simp add: waiting_def)

lemma update_not_playing:
  "state s \<noteq> PLAYING \<Longrightarrow> update F t s rs = Some (animate F s, rs)"
  by (simp add: update_def Let_def)

lemma update_waiting:
  "waiting t s \<Longrightarrow> update F t s rs = Some (animate F s, rs)"
  by (simp add: update_def Let_def)

lemma update_empty:
  "state s = PLAYING \<Longrightarrow> \<not> waiting t s \<Longrightarrow> snake s = [] \<Longrightarrow>
   update F t s rs = Some (decaySparkles F (animate F s\<lparr>lastMoveTime := t\<rparr>), rs)"
  by (simp add: update_def Let_def)

lemma update_collision:
  "state s = PLAYING \<Longrightarrow> \<not> waiting t s \<Longrightarrow> snake s = h # rest \<Longrightarrow>
   newHead h (direction s) \<in> set (snake s) \<or> newHead h (direction s) \<in> set (obstacles s) \<Longrightarrow>
   update F t s rs = handleCollision F (animate F s\<lparr>lastMoveTime := t\<rparr>) rs"
  by (auto simp: update_def Let_def)

lemma update_move:
  "state s = PLAYING \<Longrightarrow> \<not> waiting t s \<Longrightarrow> snake s = h # rest \<Longrightarrow>
   newHead h (direction s) \<notin> set (snake s) \<Longrightarrow> newHead h (direction s) \<notin> set (obstacles s) \<Longrightarrow>
   newHead h (direction s) \<notin> set (foodItems s) \<Longrightarrow>
   update F t s rs =
     Some (decaySparkles F
             (animate F s\<lparr>lastMoveTime := t, snake := newHead h (direction s) # butlast (snake s)\<rparr>), rs)"
  by (simp add: update_def Let_def)

lemma update_eat:
  "state s = PLAYING \<Longrightarrow> \<not> waiting t s \<Longrightarrow> snake s = h # rest \<Longrightarrow>
   newHead h (direction s) \<notin> set (snake s) \<Longrightarrow> newHead h (direction s) \<notin> set (obstacles s) \<Longrightarrow>
   newHead h (direction s) \<in> set (foodItems s) \<Longrightarrow>
   update F t s rs =
     (case spawnFood
             (animate F s\<lparr>lastMoveTime := t, snake := newHead h (direction s) # snake s,
                score := score s + 1,
                highScore := (if score s + 1 > highScore s then score s + 1 else highScore s),
                foodItems := []\<rparr>) rs of
        None \<Rightarrow> None
      | Some (s6, rs6) \<Rightarrow>
          (case spawnObstacles 5 s6 rs6 of
             None \<Rightarrow> None
           | Some (s7, rs7) \<Rightarrow> Some (decaySparkles F s7, rs7)))"
  by (simp add: update_def Let_def)


lemma update_eat_Some:
  assumes "state s = PLAYING" "\<not> waiting t s" "snake s = h # rest"
    "newHead h (direction s) \<notin> set (snake s)" "newHead h (direction s) \<notin> set (obstacles s)"
    "newHead h (direction s) \<in> set (foodItems s)"
    "update F t s rs = Some (s', rs')"
  shows "\<exists>fd ob.
     s' = decaySparkles F
            (animate F s\<lparr>lastMoveTime := t, snake := newHead h (direction s) # snake s,
                score := score s + 1,
                highScore := (if score s + 1 > highScore s then score s + 1 else highScore s),
                foodItems := fd, obstacles := obstacles s @ ob\<rparr>) \<and>
     length fd = nat (numFoodItems s) \<and> length ob = 5 \<and>
     (\<forall>p\<in>set fd. p \<notin> set (newHead h (direction s) # snake s) \<and> p \<notin> set (obstacles s) \<and> on_grid p) \<and>
     (\<forall>p\<in>set ob. p \<notin> set (newHead h (direction s) # snake s) \<and> p \<notin> set fd \<and> on_grid p)"
proof -
  define s5 where "s5 = animate F s\<lparr>lastMoveTime := t, snake := newHead h (direction s) # snake s,
                score := score s + 1,
                highScore := (if score s + 1 > highScore s then score s + 1 else highScore s),
                foodItems := []\<rparr>"
  from assms(7) obtain s6 rs6 s7 where
    f: "spawnFood s5 rs = Some (s6, rs6)" and
    o: "spawnObstacles 5 s6 rs6 = Some (s7, rs')" and
    d: "s' = decaySparkles F s7"
    unfolding update_eat [OF assms(1-6)] s5_def by (auto split: option.splits)
  from spawnFood_Some [OF f] obtain fd where
    fd: "s6 = s5\<lparr>foodItems := fd\<rparr>" "length fd = nat (numFoodItems s)"
        "\<forall>p\<in>set fd. p \<notin> set (newHead h (direction s) # snake s) \<and> p \<notin> set (obstacles s) \<and> on_grid p"
    by (auto simp: s5_def)
  from spawnObstacles_Some [OF o] obtain ob where
    ob: "s7 = s6\<lparr>obstacles := obstacles s @ ob\<rparr>" "length ob = 5"
        "\<forall>p\<in>set ob. p \<notin> set (newHead h (direction s) # snake s) \<and> p \<notin> set fd \<and> on_grid p"
    by (auto simp: fd s5_def)
  show ?thesis
    apply (rule exI [of _ fd], rule exI [of _ ob])
    using fd ob d by (simp add: s5_def)
qed




section \<open>The configuration menu's speed item\<close>

text \<open>
  C6, as stated, fails at the largest \<open>int\<close>: with the speed item highlighted and an
  interval of 2147483647, a "slow down" key does not give 2147483648; the 32-bit addition
  overflows and has no defined result.
\<close>

theorem slow_down_at_INT_MAX_counterexample:
  "state (config_menu_example INT_MAX) = CONFIG_MENU \<and>
   configOption (config_menu_example INT_MAX) = int_of_ConfigOption SPEED \<and>
   snakeSpeed (config_menu_example INT_MAX) = INT_MAX \<and>
   onKeyDown exact_ops SDLK_LEFT (config_menu_example INT_MAX) []
     \<noteq> Some ((config_menu_example INT_MAX)\<lparr>snakeSpeed := INT_MAX + 1\<rparr>, []) \<and>
   onKeyDown exact_ops SDLK_LEFT (config_menu_example INT_MAX) [] = None"
  by (simp add: config_menu_example_def Application_init_def onKeyDown_left_def
      adjustConfigOption_def ConfigOption_of_int_def int_increment_def)

text \<open>
  C6, amended. In the configuration menu with the speed item highlighted, a "speed up" key
  (right arrow or \<open>d\<close>) lowers the movement interval by one while it is greater than 1 and
  sets it to \<open>-20\<close> when it is 1 or less; a "slow down" key (left arrow or \<open>a\<close>) raises it by
  one whenever it is below 2147483647, the largest \<open>int\<close>. Nothing else of the state
  changes.
\<close>

theorem speed_item_adjust:
  assumes "state s = CONFIG_MENU" "configOption s = int_of_ConfigOption SPEED"
  shows "(k = SDLK_RIGHT \<or> k = SDLK_d \<longrightarrow>
            onKeyDown F k s rs =
              Some (s\<lparr>snakeSpeed := (if snakeSpeed s > 1 then snakeSpeed s - 1 else - 20)\<rparr>, rs)) \<and>
         ((k = SDLK_LEFT \<or> k = SDLK_a) \<and> snakeSpeed s < INT_MAX \<longrightarrow>
            onKeyDown F k s rs = Some (s\<lparr>snakeSpeed := snakeSpeed s + 1\<rparr>, rs))"
  using assms
  by (auto simp: onKeyDown_left_def onKeyDown_right_def adjustConfigOption_def
      ConfigOption_of_int_def int_increment_def)

theorem speed_item_adjust_witness:
  "state (config_menu_example 2) = CONFIG_MENU \<and>
   configOption (config_menu_example 2) = int_of_ConfigOption SPEED \<and>
   onKeyDown exact_ops SDLK_RIGHT (config_menu_example 2) [] = Some (config_menu_example 1, []) \<and>
   onKeyDown exact_ops SDLK_d (config_menu_example 1) [] = Some (config_menu_example (- 20), []) \<and>
   onKeyDown exact_ops SDLK_RIGHT (config_menu_example (- 20)) [] =
     Some (config_menu_example (- 20), []) \<and>
   snakeSpeed (config_menu_example (- 20)) < INT_MAX \<and>
   onKeyDown exact_ops SDLK_LEFT (config_menu_example (- 20)) [] =
     Some (config_menu_example (- 19), []) \<and>
   snakeSpeed (config_menu_example 2147483646) < INT_MAX \<and>
   onKeyDown exact_ops SDLK_a (config_menu_example 2147483646) [] =
     Some (config_menu_example INT_MAX, [])"
proof -
  have c: "state (config_menu_example n) = CONFIG_MENU"
          "configOption (config_menu_example n) = int_of_ConfigOption SPEED" for n
    by (simp_all add: config_menu_example_def Application_init_def)
  have u: "config_menu_example n\<lparr>snakeSpeed := m\<rparr> = config_menu_example m"
          "snakeSpeed (config_menu_example n) = n" for n m
    by (simp_all add: config_menu_example_def)
  show ?thesis
    using speed_item_adjust [where s = "config_menu_example 2" and k = SDLK_RIGHT
        and F = exact_ops and rs = "[]"]
      speed_item_adjust [where s = "config_menu_example 1" and k = SDLK_d
        and F = exact_ops and rs = "[]"]
      speed_item_adjust [where s = "config_menu_example (- 20)" and k = SDLK_RIGHT
        and F = exact_ops and rs = "[]"]
      speed_item_adjust [where s = "config_menu_example (- 20)" and k = SDLK_LEFT
        and F = exact_ops and rs = "[]"]
      speed_item_adjust [where s = "config_menu_example 2147483646" and k = SDLK_a
        and F = exact_ops and rs = "[]"]
    by (simp add: c u)
qed

section \<open>Tapes on which the spawning loops return\<close>

lemma on_grid_cell:
  assumes "on_grid p"
  shows "\<lparr>px = (int (nat (px p div GRID_SIZE)) mod (SCREEN_WIDTH div GRID_SIZE)) * GRID_SIZE,
          py = (int (nat (py p div GRID_SIZE)) mod (SCREEN_HEIGHT div GRID_SIZE)) * GRID_SIZE\<rparr> = p"
proof -
  from assms have x: "0 \<le> px p" "px p < 800" "px p mod 20 = 0"
    and y: "0 \<le> py p" "py p < 600" "py p mod 20 = 0"
    by (simp_all add: on_grid_def)
  have "px p div 20 < 40" "0 \<le> px p div 20" using x by simp_all
  then have "px p div 20 mod 40 = px p div 20" by simp
  moreover have "px p div 20 * 20 = px p" using x(3) by (simp add: mod_0_imp_dvd)
  moreover have "py p div 20 < 30" "0 \<le> py p div 20" using y by simp_all
  then have "py p div 20 mod 30 = py p div 20" by simp
  moreover have "py p div 20 * 20 = py p" using y(3) by (simp add: mod_0_imp_dvd)
  ultimately show ?thesis using x y by simp
qed

lemma spawnFood_cell_at:
  "on_grid p \<Longrightarrow> p \<notin> set snk \<Longrightarrow> p \<notin> set obs \<Longrightarrow>
   spawnFood_cell snk obs (nat (px p div GRID_SIZE) # nat (py p div GRID_SIZE) # rs) = Some (p, rs)"
  using on_grid_cell [of p] by (simp add: Let_def)

lemma spawnObstacles_cell_at:
  "on_grid p \<Longrightarrow> p \<notin> set snk \<Longrightarrow> p \<notin> set fd \<Longrightarrow>
   spawnObstacles_cell snk fd (nat (px p div GRID_SIZE) # nat (py p div GRID_SIZE) # rs) = Some (p, rs)"
  using on_grid_cell [of p] by (simp add: Let_def)

lemma spawnFood_loop_at:
  "on_grid p \<Longrightarrow> p \<notin> set (snake s) \<Longrightarrow> p \<notin> set (obstacles s) \<Longrightarrow>
   spawnFood_loop n s (cell_tape p n @ rs) = Some (s\<lparr>foodItems := foodItems s @ replicate n p\<rparr>, rs)"
proof (induction n arbitrary: s)
  case 0
  then show ?case by (simp add: cell_tape_def)
next
  case (Suc n)
  have t: "cell_tape p (Suc n) @ rs
             = nat (px p div GRID_SIZE) # nat (py p div GRID_SIZE) # (cell_tape p n @ rs)"
    by (simp add: cell_tape_def)
  show ?case
    unfolding t using Suc.prems
    by (simp del: spawnFood_cell.simps add: spawnFood_cell_at Suc.IH replicate_app_Cons_same)
qed

lemma spawnObstacles_loop_at:
  "on_grid p \<Longrightarrow> p \<notin> set (snake s) \<Longrightarrow> p \<notin> set (foodItems s) \<Longrightarrow>
   spawnObstacles_loop n s (cell_tape p n @ rs) = Some (s\<lparr>obstacles := obstacles s @ replicate n p\<rparr>, rs)"
proof (induction n arbitrary: s)
  case 0
  then show ?case by (simp add: cell_tape_def)
next
  case (Suc n)
  have t: "cell_tape p (Suc n) @ rs
             = nat (px p div GRID_SIZE) # nat (py p div GRID_SIZE) # (cell_tape p n @ rs)"
    by (simp add: cell_tape_def)
  show ?case
    unfolding t using Suc.prems
    by (simp del: spawnObstacles_cell.simps add: spawnObstacles_cell_at Suc.IH replicate_app_Cons_same)
qed

lemma spawnFood_at:
  "on_grid p \<Longrightarrow> p \<notin> set (snake s) \<Longrightarrow> p \<notin> set (obstacles s) \<Longrightarrow>
   spawnFood s (cell_tape p (nat (numFoodItems s)) @ rs) =
     Some (s\<lparr>foodItems := foodItems s @ replicate (nat (numFoodItems s)) p\<rparr>, rs)"
  by (simp add: spawnFood_def spawnFood_loop_at)

lemma spawnObstacles_at:
  "on_grid p \<Longrightarrow> p \<notin> set (snake s) \<Longrightarrow> p \<notin> set (foodItems s) \<Longrightarrow>
   spawnObstacles count s (cell_tape p (nat count) @ rs) =
     Some (s\<lparr>obstacles := obstacles s @ replicate (nat count) p\<rparr>, rs)"
  by (simp add: spawnObstacles_def spawnObstacles_loop_at)

lemma replicate_not_distinct: "2 \<le> n \<Longrightarrow> \<not> distinct (replicate n p)"
  by (cases n; cases "n - 1") auto

section \<open>Spawned cells avoid the snake and the other set\<close>

text \<open>
  C8. Whenever a spawn call returns (on any values of \<open>std::rand()\<close>), it has only
  appended cells to its own list: every food cell appended by \<open>spawnFood\<close> is neither
  a snake segment nor an obstacle of the state it was called in, and every obstacle
  appended by \<open>spawnObstacles\<close> is neither a snake segment nor a food cell of that state.
\<close>

theorem spawned_cells_avoid:
  "(\<forall>rs s' rs'. spawnFood s rs = Some (s', rs') \<longrightarrow>
      (\<exists>new. s' = s\<lparr>foodItems := foodItems s @ new\<rparr> \<and>
             (\<forall>p\<in>set new. p \<notin> set (snake s) \<and> p \<notin> set (obstacles s)))) \<and>
   (\<forall>rs s' rs'. spawnObstacles count s rs = Some (s', rs') \<longrightarrow>
      (\<exists>new. s' = s\<lparr>obstacles := obstacles s @ new\<rparr> \<and>
             (\<forall>p\<in>set new. p \<notin> set (snake s) \<and> p \<notin> set (foodItems s))))"
proof (intro conjI allI impI)
  fix rs s' rs'
  assume "spawnFood s rs = Some (s', rs')"
  from spawnFood_Some [OF this] show
    "\<exists>new. s' = s\<lparr>foodItems := foodItems s @ new\<rparr> \<and>
           (\<forall>p\<in>set new. p \<notin> set (snake s) \<and> p \<notin> set (obstacles s))"
    by blast
next
  fix rs s' rs'
  assume "spawnObstacles count s rs = Some (s', rs')"
  from spawnObstacles_Some [OF this] show
    "\<exists>new. s' = s\<lparr>obstacles := obstacles s @ new\<rparr> \<and>
           (\<forall>p\<in>set new. p \<notin> set (snake s) \<and> p \<notin> set (foodItems s))"
    by blast
qed

lemma spawn_example_food:
  "spawnFood spawn_example [0, 0, 20, 15, 1, 0, 2, 0] =
     Some (spawn_example\<lparr>foodItems := [\<lparr>px = 20, py = 0\<rparr>, \<lparr>px = 40, py = 0\<rparr>]\<rparr>, [])"
  by code_simp

lemma spawn_example_obstacles:
  "spawnObstacles 2 playing_example [20, 15, 21, 15, 0, 0, 5, 5, 6, 6] =
     Some (playing_example\<lparr>obstacles := obstacles playing_example @
             [\<lparr>px = 100, py = 100\<rparr>, \<lparr>px = 120, py = 120\<rparr>]\<rparr>, [])"
  by code_simp

theorem spawned_cells_avoid_witness:
  "spawnFood spawn_example [0, 0, 20, 15, 1, 0, 2, 0] =
     Some (spawn_example\<lparr>foodItems := [\<lparr>px = 20, py = 0\<rparr>, \<lparr>px = 40, py = 0\<rparr>]\<rparr>, []) \<and>
   \<lparr>px = 20, py = 0\<rparr> \<notin> set (snake spawn_example) \<and>
   \<lparr>px = 40, py = 0\<rparr> \<notin> set (obstacles spawn_example) \<and>
   spawnObstacles 2 playing_example [20, 15, 21, 15, 0, 0, 5, 5, 6, 6] =
     Some (playing_example\<lparr>obstacles := obstacles playing_example @
             [\<lparr>px = 100, py = 100\<rparr>, \<lparr>px = 120, py = 120\<rparr>]\<rparr>, []) \<and>
   \<lparr>px = 100, py = 100\<rparr> \<notin> set (foodItems playing_example) \<and>
   \<lparr>px = 120, py = 120\<rparr> \<notin> set (snake playing_example)"
proof -
  from spawned_cells_avoid [where s = spawn_example, THEN conjunct1, rule_format,
      OF spawn_example_food]
  obtain new where
    n: "spawn_example\<lparr>foodItems := [\<lparr>px = 20, py = 0\<rparr>, \<lparr>px = 40, py = 0\<rparr>]\<rparr>
          = spawn_example\<lparr>foodItems := foodItems spawn_example @ new\<rparr>"
       "\<forall>p\<in>set new. p \<notin> set (snake spawn_example) \<and> p \<notin> set (obstacles spawn_example)"
    by blast
  from n(1) have "foodItems (spawn_example\<lparr>foodItems := [\<lparr>px = 20, py = 0\<rparr>, \<lparr>px = 40, py = 0\<rparr>]\<rparr>)
      = foodItems (spawn_example\<lparr>foodItems := foodItems spawn_example @ new\<rparr>)"
    by (rule arg_cong)
  then have new: "new = [\<lparr>px = 20, py = 0\<rparr>, \<lparr>px = 40, py = 0\<rparr>]"
    by (simp add: spawn_example_def)
  from spawned_cells_avoid [where s = playing_example and count = 2, THEN conjunct2, rule_format,
      OF spawn_example_obstacles]
  obtain new' where
    m: "playing_example\<lparr>obstacles := obstacles playing_example @
             [\<lparr>px = 100, py = 100\<rparr>, \<lparr>px = 120, py = 120\<rparr>]\<rparr>
          = playing_example\<lparr>obstacles := obstacles playing_example @ new'\<rparr>"
       "\<forall>p\<in>set new'. p \<notin> set (snake playing_example) \<and> p \<notin> set (foodItems playing_example)"
    by blast
  from m(1) have "obstacles (playing_example\<lparr>obstacles := obstacles playing_example @
             [\<lparr>px = 100, py = 100\<rparr>, \<lparr>px = 120, py = 120\<rparr>]\<rparr>)
      = obstacles (playing_example\<lparr>obstacles := obstacles playing_example @ new'\<rparr>)"
    by (rule arg_cong)
  then have new': "new' = [\<lparr>px = 100, py = 100\<rparr>, \<lparr>px = 120, py = 120\<rparr>]"
    by simp
  show ?thesis
    using n(2) m(2) spawn_example_food spawn_example_obstacles unfolding new new' by simp
qed

section \<open>Spawned cells may repeat\<close>

text \<open>
  C9. Neither loop checks the list it appends to. Whenever some grid cell is free of the
  snake and of the obstacles and the food count is at least 2, there are values of
  \<open>std::rand()\<close> on which one \<open>spawnFood\<close> call appends food cells that are not pairwise
  distinct; likewise \<open>spawnObstacles\<close> with a count of at least 2 can append obstacles
  that are not pairwise distinct, and can append an obstacle on a cell that already holds
  one.
\<close>

theorem spawn_allows_duplicates:
  assumes "on_grid p" "p \<notin> set (snake s)"
  shows "(p \<notin> set (obstacles s) \<and> 2 \<le> numFoodItems s \<longrightarrow>
            (\<exists>rs s' rs' new. spawnFood s rs = Some (s', rs') \<and>
               foodItems s' = foodItems s @ new \<and> \<not> distinct new)) \<and>
         (p \<notin> set (foodItems s) \<and> 2 \<le> count \<longrightarrow>
            (\<exists>rs s' rs' new. spawnObstacles count s rs = Some (s', rs') \<and>
               obstacles s' = obstacles s @ new \<and> \<not> distinct new)) \<and>
         (p \<notin> set (foodItems s) \<and> p \<in> set (obstacles s) \<and> 1 \<le> count \<longrightarrow>
            (\<exists>rs s' rs' new. spawnObstacles count s rs = Some (s', rs') \<and>
               obstacles s' = obstacles s @ new \<and> set new \<inter> set (obstacles s) \<noteq> {}))"
proof (intro conjI impI)
  assume a: "p \<notin> set (obstacles s) \<and> 2 \<le> numFoodItems s"
  let ?n = "nat (numFoodItems s)"
  have "spawnFood s (cell_tape p ?n @ []) = Some (s\<lparr>foodItems := foodItems s @ replicate ?n p\<rparr>, [])"
    using assms a by (intro spawnFood_at) simp_all
  moreover have "\<not> distinct (replicate ?n p)"
    using a by (intro replicate_not_distinct) arith
  ultimately show "\<exists>rs s' rs' new. spawnFood s rs = Some (s', rs') \<and>
               foodItems s' = foodItems s @ new \<and> \<not> distinct new"
    by (intro exI [of _ "cell_tape p ?n @ []"] exI [of _ "s\<lparr>foodItems := foodItems s @ replicate ?n p\<rparr>"]
        exI [of _ "[]"] exI [of _ "replicate ?n p"]) simp
next
  assume a: "p \<notin> set (foodItems s) \<and> 2 \<le> count"
  let ?n = "nat count"
  have "spawnObstacles count s (cell_tape p ?n @ []) = Some (s\<lparr>obstacles := obstacles s @ replicate ?n p\<rparr>, [])"
    using assms a by (intro spawnObstacles_at) simp_all
  moreover have "\<not> distinct (replicate ?n p)"
    using a by (intro replicate_not_distinct) arith
  ultimately show "\<exists>rs s' rs' new. spawnObstacles count s rs = Some (s', rs') \<and>
               obstacles s' = obstacles s @ new \<and> \<not> distinct new"
    by (intro exI [of _ "cell_tape p ?n @ []"] exI [of _ "s\<lparr>obstacles := obstacles s @ replicate ?n p\<rparr>"]
        exI [of _ "[]"] exI [of _ "replicate ?n p"]) simp
next
  assume a: "p \<notin> set (foodItems s) \<and> p \<in> set (obstacles s) \<and> 1 \<le> count"
  let ?n = "nat count"
  have "spawnObstacles count s (cell_tape p ?n @ []) = Some (s\<lparr>obstacles := obstacles s @ replicate ?n p\<rparr>, [])"
    using assms a by (intro spawnObstacles_at) simp_all
  moreover have "set (replicate ?n p) \<inter> set (obstacles s) \<noteq> {}"
    using a by auto
  ultimately show "\<exists>rs s' rs' new. spawnObstacles count s rs = Some (s', rs') \<and>
               obstacles s' = obstacles s @ new \<and> set new \<inter> set (obstacles s) \<noteq> {}"
    by (intro exI [of _ "cell_tape p ?n @ []"] exI [of _ "s\<lparr>obstacles := obstacles s @ replicate ?n p\<rparr>"]
        exI [of _ "[]"] exI [of _ "replicate ?n p"]) simp
qed

lemma spawn_example_duplicate_food:
  "spawnFood spawn_example [5, 5, 5, 5] =
     Some (spawn_example\<lparr>foodItems := [\<lparr>px = 100, py = 100\<rparr>, \<lparr>px = 100, py = 100\<rparr>]\<rparr>, [])"
  by code_simp

lemma spawn_example_duplicate_obstacles:
  "spawnObstacles 2 spawn_example [0, 0, 0, 0] =
     Some (spawn_example\<lparr>obstacles :=
             [\<lparr>px = 0, py = 0\<rparr>, \<lparr>px = 0, py = 0\<rparr>, \<lparr>px = 0, py = 0\<rparr>]\<rparr>, [])"
  by code_simp

theorem spawn_allows_duplicates_witness:
  "on_grid \<lparr>px = 0, py = 0\<rparr> \<and> \<lparr>px = 0, py = 0\<rparr> \<notin> set (snake spawn_example) \<and>
   \<lparr>px = 0, py = 0\<rparr> \<notin> set (foodItems spawn_example) \<and>
   \<lparr>px = 0, py = 0\<rparr> \<in> set (obstacles spawn_example) \<and>
   on_grid \<lparr>px = 100, py = 100\<rparr> \<and> \<lparr>px = 100, py = 100\<rparr> \<notin> set (snake spawn_example) \<and>
   \<lparr>px = 100, py = 100\<rparr> \<notin> set (obstacles spawn_example) \<and>
   2 \<le> numFoodItems spawn_example \<and>
   (\<exists>rs s' rs' new. spawnFood spawn_example rs = Some (s', rs') \<and>
      foodItems s' = foodItems spawn_example @ new \<and> \<not> distinct new) \<and>
   (\<exists>rs s' rs' new. spawnObstacles 2 spawn_example rs = Some (s', rs') \<and>
      obstacles s' = obstacles spawn_example @ new \<and> \<not> distinct new) \<and>
   (\<exists>rs s' rs' new. spawnObstacles 2 spawn_example rs = Some (s', rs') \<and>
      obstacles s' = obstacles spawn_example @ new \<and>
      set new \<inter> set (obstacles spawn_example) \<noteq> {}) \<and>
   spawnFood spawn_example [5, 5, 5, 5] =
     Some (spawn_example\<lparr>foodItems := [\<lparr>px = 100, py = 100\<rparr>, \<lparr>px = 100, py = 100\<rparr>]\<rparr>, []) \<and>
   spawnObstacles 2 spawn_example [0, 0, 0, 0] =
     Some (spawn_example\<lparr>obstacles :=
             [\<lparr>px = 0, py = 0\<rparr>, \<lparr>px = 0, py = 0\<rparr>, \<lparr>px = 0, py = 0\<rparr>]\<rparr>, [])"
proof -
  have g: "on_grid \<lparr>px = 0, py = 0\<rparr>" and g': "on_grid \<lparr>px = 100, py = 100\<rparr>"
    by (simp_all add: on_grid_def)
  have s: "\<lparr>px = 0, py = 0\<rparr> \<notin> set (snake spawn_example)"
    and f: "\<lparr>px = 0, py = 0\<rparr> \<notin> set (foodItems spawn_example)"
    and ob: "\<lparr>px = 0, py = 0\<rparr> \<in> set (obstacles spawn_example)"
    and s': "\<lparr>px = 100, py = 100\<rparr> \<notin> set (snake spawn_example)"
    and ob': "\<lparr>px = 100, py = 100\<rparr> \<notin> set (obstacles spawn_example)"
    and n: "2 \<le> numFoodItems spawn_example"
    by (simp_all add: spawn_example_def playing_example_def Application_init_def)
  from spawn_allows_duplicates [OF g s, of 2] spawn_allows_duplicates [OF g' s', of 2]
  show ?thesis
    using g s f ob g' s' ob' n spawn_example_duplicate_food spawn_example_duplicate_obstacles
    by simp
qed

section \<open>The sample game is reachable\<close>

lemma reachable_playing_example: "reachable exact_ops playing_example"
proof -
  have "handleEvent exact_ops (SDL_KEYDOWN SDLK_RETURN) (Application_init exact_ops) start_tape
          = Some (playing_example, [])"
    by code_simp
  with reachable_init [of exact_ops] show ?thesis
    by (rule reachable_event)
qed

section \<open>Direction keys while playing\<close>

text \<open>
  C4. While playing, with any of the four directions: when the snake moves along x, the
  left and right keys (arrows or \<open>a\<close>/\<open>d\<close>) leave the state as it is and the up and down
  keys (arrows or \<open>w\<close>/\<open>s\<close>) set the direction to \<open>(0,-1)\<close> and \<open>(0,1)\<close>; when it moves
  along y, the up and down keys leave the state as it is and the left and right keys set
  the direction to \<open>(-1,0)\<close> and \<open>(1,0)\<close>.
\<close>

theorem direction_change:
  assumes "state s = PLAYING" "unit_dir (direction s)"
  shows "(px (direction s) \<noteq> 0 \<longrightarrow>
            onKeyDown F SDLK_LEFT s rs = Some (s, rs) \<and> onKeyDown F SDLK_a s rs = Some (s, rs) \<and>
            onKeyDown F SDLK_RIGHT s rs = Some (s, rs) \<and> onKeyDown F SDLK_d s rs = Some (s, rs) \<and>
            onKeyDown F SDLK_UP s rs = Some (s\<lparr>direction := \<lparr>px = 0, py = - 1\<rparr>\<rparr>, rs) \<and>
            onKeyDown F SDLK_w s rs = Some (s\<lparr>direction := \<lparr>px = 0, py = - 1\<rparr>\<rparr>, rs) \<and>
            onKeyDown F SDLK_DOWN s rs = Some (s\<lparr>direction := \<lparr>px = 0, py = 1\<rparr>\<rparr>, rs) \<and>
            onKeyDown F SDLK_s s rs = Some (s\<lparr>direction := \<lparr>px = 0, py = 1\<rparr>\<rparr>, rs)) \<and>
         (py (direction s) \<noteq> 0 \<longrightarrow>
            onKeyDown F SDLK_UP s rs = Some (s, rs) \<and> onKeyDown F SDLK_w s rs = Some (s, rs) \<and>
            onKeyDown F SDLK_DOWN s rs = Some (s, rs) \<and> onKeyDown F SDLK_s s rs = Some (s, rs) \<and>
            onKeyDown F SDLK_LEFT s rs = Some (s\<lparr>direction := \<lparr>px = - 1, py = 0\<rparr>\<rparr>, rs) \<and>
            onKeyDown F SDLK_a s rs = Some (s\<lparr>direction := \<lparr>px = - 1, py = 0\<rparr>\<rparr>, rs) \<and>
            onKeyDown F SDLK_RIGHT s rs = Some (s\<lparr>direction := \<lparr>px = 1, py = 0\<rparr>\<rparr>, rs) \<and>
            onKeyDown F SDLK_d s rs = Some (s\<lparr>direction := \<lparr>px = 1, py = 0\<rparr>\<rparr>, rs))"
proof -
  from assms(2) consider (horizontal) "px (direction s) \<noteq> 0" "py (direction s) = 0"
    | (vertical) "px (direction s) = 0" "py (direction s) \<noteq> 0"
    by (auto simp: unit_dir_def)
  then show ?thesis
  proof cases
    case horizontal
    with assms(1) show ?thesis
      by (simp add: onKeyDown_left_def onKeyDown_right_def onKeyDown_up_def onKeyDown_down_def)
  next
    case vertical
    with assms(1) show ?thesis
      by (simp add: onKeyDown_left_def onKeyDown_right_def onKeyDown_up_def onKeyDown_down_def)
  qed
qed

theorem direction_change_witness:
  "state playing_example = PLAYING \<and> unit_dir (direction playing_example) \<and>
   px (direction playing_example) \<noteq> 0 \<and>
   onKeyDown exact_ops SDLK_LEFT playing_example [] = Some (playing_example, []) \<and>
   onKeyDown exact_ops SDLK_RIGHT playing_example [] = Some (playing_example, []) \<and>
   onKeyDown exact_ops SDLK_UP playing_example [] =
     Some (playing_example\<lparr>direction := \<lparr>px = 0, py = - 1\<rparr>\<rparr>, []) \<and>
   state (playing_example\<lparr>direction := \<lparr>px = 0, py = - 1\<rparr>\<rparr>) = PLAYING \<and>
   unit_dir (direction (playing_example\<lparr>direction := \<lparr>px = 0, py = - 1\<rparr>\<rparr>)) \<and>
   py (direction (playing_example\<lparr>direction := \<lparr>px = 0, py = - 1\<rparr>\<rparr>)) \<noteq> 0 \<and>
   onKeyDown exact_ops SDLK_DOWN (playing_example\<lparr>direction := \<lparr>px = 0, py = - 1\<rparr>\<rparr>) [] =
     Some (playing_example\<lparr>direction := \<lparr>px = 0, py = - 1\<rparr>\<rparr>, []) \<and>
   onKeyDown exact_ops SDLK_a (playing_example\<lparr>direction := \<lparr>px = 0, py = - 1\<rparr>\<rparr>) [] =
     Some (playing_example\<lparr>direction := \<lparr>px = - 1, py = 0\<rparr>\<rparr>, [])"
proof -
  have a: "state playing_example = PLAYING" "unit_dir (direction playing_example)"
    "px (direction playing_example) \<noteq> 0"
    by (simp_all add: playing_example_def Application_init_def unit_dir_def)
  have b: "state (playing_example\<lparr>direction := \<lparr>px = 0, py = - 1\<rparr>\<rparr>) = PLAYING"
    "unit_dir (direction (playing_example\<lparr>direction := \<lparr>px = 0, py = - 1\<rparr>\<rparr>))"
    "py (direction (playing_example\<lparr>direction := \<lparr>px = 0, py = - 1\<rparr>\<rparr>)) \<noteq> 0"
    by (simp_all add: playing_example_def Application_init_def unit_dir_def)
  from direction_change [OF a(1,2), of exact_ops "[]"] direction_change [OF b(1,2), of exact_ops "[]"]
  show ?thesis using a b by simp
qed

section \<open>A collision resets the game\<close>

lemma resetGame_returns: "\<exists>rs s' rs'. resetGame s rs = Some (s', rs')"
proof -
  define s1 where "s1 = s\<lparr>snake := [center], direction := \<lparr>px = 1, py = 0\<rparr>, score := 0,
                  foodItems := [], obstacles := []\<rparr>"
  define c1 where "c1 = \<lparr>px = 0, py = 0\<rparr>"
  define c2 where "c2 = \<lparr>px = GRID_SIZE, py = 0\<rparr>"
  define s2 where "s2 = s1\<lparr>foodItems := foodItems s1 @ replicate (nat (numFoodItems s1)) c1\<rparr>"
  define tape where
    "tape = cell_tape c1 (nat (numFoodItems s1)) @ cell_tape c2 (nat (numObstacles s2)) @ []"
  have g: "on_grid c1" "on_grid c2"
    by (simp_all add: on_grid_def c1_def c2_def)
  have "spawnFood s1 tape = Some (s2, cell_tape c2 (nat (numObstacles s2)) @ [])"
    unfolding tape_def s2_def
    by (rule spawnFood_at [OF g(1)]) (simp_all add: s1_def c1_def)
  moreover have "spawnObstacles (numObstacles s2) s2 (cell_tape c2 (nat (numObstacles s2)) @ [])
      = Some (s2\<lparr>obstacles := obstacles s2 @ replicate (nat (numObstacles s2)) c2\<rparr>, [])"
    by (rule spawnObstacles_at [OF g(2)]) (simp_all add: s2_def s1_def c1_def c2_def)
  ultimately have "resetGame s tape
      = Some (s2\<lparr>obstacles := obstacles s2 @ replicate (nat (numObstacles s2)) c2\<rparr>, [])"
    by (simp add: resetGame_def Let_def s1_def)
  then show ?thesis by blast
qed

lemma handleCollision_returns:
  "snake s \<noteq> [] \<Longrightarrow> \<exists>rs s' rs'. handleCollision F s rs = Some (s', rs')"
  by (cases "snake s") (simp_all add: handleCollision_def Let_def resetGame_returns)

text \<open>
  C2. On an update in the Playing state whose interval has elapsed and whose new head is
  a snake segment or an obstacle: whenever the update returns, the snake is the single
  centre cell \<open>(SCREEN_WIDTH / 2, SCREEN_HEIGHT / 2)\<close> (the new head was not added), the
  direction is \<open>(1,0)\<close>, the score is 0, the high score is the old score if that exceeded
  it and is never lower than before, the state is still Playing, the configuration is
  unchanged, and the food and obstacle lists hold exactly the configured numbers of
  freshly spawned cells. And the update does return on some values of \<open>std::rand()\<close>.
\<close>

theorem collision_resets:
  assumes "state s = PLAYING" "\<not> waiting t s" "snake s \<noteq> []"
    "newHead (hd (snake s)) (direction s) \<in> set (snake s) \<or>
     newHead (hd (snake s)) (direction s) \<in> set (obstacles s)"
  shows "(\<forall>rs s' rs'. update F t s rs = Some (s', rs') \<longrightarrow>
            snake s' = [center] \<and> direction s' = \<lparr>px = 1, py = 0\<rparr> \<and> score s' = 0 \<and>
            highScore s' = (if score s > highScore s then score s else highScore s) \<and>
            highScore s \<le> highScore s' \<and>
            state s' = PLAYING \<and>
            numFoodItems s' = numFoodItems s \<and> numObstacles s' = numObstacles s \<and>
            length (foodItems s') = nat (numFoodItems s) \<and>
            length (obstacles s') = nat (numObstacles s) \<and>
            (\<forall>p\<in>set (foodItems s'). p \<notin> set (snake s') \<and> on_grid p) \<and>
            (\<forall>p\<in>set (obstacles s'). p \<notin> set (snake s') \<and> p \<notin> set (foodItems s') \<and> on_grid p)) \<and>
         (\<exists>rs s' rs'. update F t s rs = Some (s', rs'))"
proof -
  from assms(3) obtain h rest where sn: "snake s = h # rest"
    by (cases "snake s") auto
  with assms(4) have hit: "newHead h (direction s) \<in> set (snake s) \<or>
     newHead h (direction s) \<in> set (obstacles s)"
    by simp
  have u: "update F t s rs = handleCollision F (animate F s\<lparr>lastMoveTime := t\<rparr>) rs" for rs
    by (rule update_collision [OF assms(1,2) sn hit])
  have "\<exists>rs s' rs'. handleCollision F (animate F s\<lparr>lastMoveTime := t\<rparr>) rs = Some (s', rs')"
    by (rule handleCollision_returns) (simp add: sn)
  then have ex: "\<exists>rs s' rs'. update F t s rs = Some (s', rs')"
    by (simp add: u)
  have "snake s' = [center] \<and> direction s' = \<lparr>px = 1, py = 0\<rparr> \<and> score s' = 0 \<and>
            highScore s' = (if score s > highScore s then score s else highScore s) \<and>
            highScore s \<le> highScore s' \<and>
            state s' = PLAYING \<and>
            numFoodItems s' = numFoodItems s \<and> numObstacles s' = numObstacles s \<and>
            length (foodItems s') = nat (numFoodItems s) \<and>
            length (obstacles s') = nat (numObstacles s) \<and>
            (\<forall>p\<in>set (foodItems s'). p \<notin> set (snake s') \<and> on_grid p) \<and>
            (\<forall>p\<in>set (obstacles s'). p \<notin> set (snake s') \<and> p \<notin> set (foodItems s') \<and> on_grid p)"
    if "update F t s rs = Some (s', rs')" for rs s' rs'
  proof -
    define s0 where "s0 = animate F s\<lparr>lastMoveTime := t\<rparr>"
    from that have "handleCollision F s0 rs = Some (s', rs')"
      by (simp add: u s0_def)
    from handleCollision_Some [OF this] obtain h' rest' fd ob where
      s': "s' = s0\<lparr>sparkles := sparkles s0 @ replicate 20 (collisionSparkle F h'),
                  highScore := (if score s0 > highScore s0 then score s0 else highScore s0),
                  snake := [center], direction := \<lparr>px = 1, py = 0\<rparr>, score := 0,
                  foodItems := fd, obstacles := ob\<rparr>" and
      l: "length fd = nat (numFoodItems s0)" "length ob = nat (numObstacles s0)" and
      fd: "\<forall>p\<in>set fd. p \<noteq> center \<and> on_grid p" and
      ob: "\<forall>p\<in>set ob. p \<noteq> center \<and> p \<notin> set fd \<and> on_grid p"
      by blast
    show ?thesis
      unfolding s' using l fd ob assms(1) by (simp add: s0_def)
  qed
  with ex show ?thesis by blast
qed

lemma turned_example_crashes:
  "update exact_ops 100 turned_example start_tape = Some (crashed_example, [])"
  by code_simp

lemma turned_example_pre:
  "state turned_example = PLAYING" "\<not> waiting 100 turned_example" "snake turned_example \<noteq> []"
  "newHead (hd (snake turned_example)) (direction turned_example) \<in> set (snake turned_example) \<or>
   newHead (hd (snake turned_example)) (direction turned_example) \<in> set (obstacles turned_example)"
  by (simp_all add: turned_example_def playing_example_def Application_init_def waiting_def
      newHead_def)

theorem collision_resets_witness:
  "state turned_example = PLAYING \<and> \<not> waiting 100 turned_example \<and> snake turned_example \<noteq> [] \<and>
   newHead (hd (snake turned_example)) (direction turned_example) \<in> set (obstacles turned_example) \<and>
   update exact_ops 100 turned_example start_tape = Some (crashed_example, []) \<and>
   snake crashed_example = [center] \<and> direction crashed_example = \<lparr>px = 1, py = 0\<rparr> \<and>
   score crashed_example = 0 \<and> highScore turned_example \<le> highScore crashed_example \<and>
   state crashed_example = PLAYING \<and>
   length (foodItems crashed_example) = 10 \<and> length (obstacles crashed_example) = 15"
proof -
  have "newHead (hd (snake turned_example)) (direction turned_example) \<in> set (obstacles turned_example)"
    by (simp add: turned_example_def playing_example_def Application_init_def newHead_def)
  moreover have "nat (numFoodItems turned_example) = 10" "nat (numObstacles turned_example) = 15"
    by (simp_all add: turned_example_def playing_example_def Application_init_def)
  ultimately show ?thesis
    using collision_resets [OF turned_example_pre, of exact_ops, THEN conjunct1, rule_format,
        OF turned_example_crashes]
      turned_example_pre turned_example_crashes
    by simp
qed

section \<open>Eating food\<close>






section \<open>Advancing wraps the head around the canvas\<close>







section \<open>Movement intervals that are not positive\<close>

lemma zero_interval_never_waits: "snakeSpeed s = 0 \<Longrightarrow> \<not> waiting t s"
  by (simp add: waiting_def)

lemma negative_interval_waiting:
  assumes "snakeSpeed s = - 20"
  shows "waiting t s \<longleftrightarrow> t - lastMoveTime s < 4294967276"
proof -
  have "(word_of_int (- 20) :: 32 word) = 4294967276" by simp
  with assms show ?thesis by (simp only: waiting_def)
qed

text \<open>
  C5. With the interval \<open>-20\<close> the update does not advance on every call: the cast
  \<open>(Uint32)snakeSpeed\<close> turns \<open>-20\<close> into 4294967276, so at tick 1000 of a game whose
  last move was at tick 0 the update still waits and returns with the snake where it
  was. With the interval 0 the same update does not wait.
\<close>

theorem negative_interval_stalls:
  "state stalled_example = PLAYING \<and> snakeSpeed stalled_example = - 20 \<and>
   lastMoveTime stalled_example = 0 \<and>
   waiting 1000 stalled_example \<and>
   update exact_ops 1000 stalled_example eat_tape = Some (animate exact_ops stalled_example, eat_tape) \<and>
   snake (animate exact_ops stalled_example) = snake stalled_example \<and>
   \<not> waiting 1000 (stalled_example\<lparr>snakeSpeed := 0\<rparr>)"
proof -
  have s: "state stalled_example = PLAYING" "snakeSpeed stalled_example = - 20"
    "lastMoveTime stalled_example = 0"
    by (simp_all add: stalled_example_def playing_example_def Application_init_def)
  have w: "waiting 1000 stalled_example"
    by (simp add: negative_interval_waiting s)
  from update_waiting [OF w] s w show ?thesis
    by (simp add: zero_interval_never_waits)
qed

section \<open>The confirm key in the menus\<close>

text \<open>
  C7, as stated, fails in the configuration menu: with "Back to Main Menu" highlighted,
  the confirm key (Return) leaves the state as it is and does not return to the main menu.
\<close>

theorem confirm_in_config_menu_counterexample:
  "state config_exit_example = CONFIG_MENU \<and>
   configOption config_exit_example = int_of_ConfigOption EXIT \<and>
   onKeyDown exact_ops SDLK_RETURN config_exit_example [] = Some (config_exit_example, []) \<and>
   onKeyDown exact_ops SDLK_RETURN config_exit_example []
     \<noteq> Some (config_exit_example\<lparr>state := MAIN_MENU\<rparr>, [])"
  by (simp add: config_exit_example_def Application_init_def onKeyDown_return_def)

text \<open>
  C7, amended. In the main menu the confirm key acts on the highlighted item (0 starts a
  game, 1 opens the configuration menu, 2 the mode menu, 3 quits); in the pause menu it
  resumes on item 0 and returns to the main menu otherwise; in the mode menu it commits
  the highlighted mode and returns to the main menu. In the configuration menu it
  changes nothing: there the highlighted item is acted on by the left and right keys, so
  with "Back to Main Menu" highlighted each of them returns to the main menu.
\<close>

theorem confirm_input:
  "(state s = MAIN_MENU \<longrightarrow>
      onKeyDown F SDLK_RETURN s rs =
        (if selectedOption s = 0 then startGame s rs
         else if selectedOption s = 1 then Some (s\<lparr>state := CONFIG_MENU\<rparr>, rs)
         else if selectedOption s = 2 then Some (s\<lparr>state := MODE_MENU\<rparr>, rs)
         else if selectedOption s = 3 then Some (s\<lparr>state := QUIT\<rparr>, rs)
         else Some (s, rs))) \<and>
   (state s = PAUSED \<longrightarrow>
      onKeyDown F SDLK_RETURN s rs =
        Some (s\<lparr>state := (if pauseMenuOption s = 0 then PLAYING else MAIN_MENU)\<rparr>, rs)) \<and>
   (state s = MODE_MENU \<longrightarrow>
      onKeyDown F SDLK_RETURN s rs =
        Some (s\<lparr>gameMode := (if modeMenuOption s = 0 then NORMAL else FLASHLIGHT),
                state := MAIN_MENU\<rparr>, rs)) \<and>
   (state s = CONFIG_MENU \<longrightarrow>
      onKeyDown F SDLK_RETURN s rs = Some (s, rs) \<and>
      (configOption s = int_of_ConfigOption EXIT \<longrightarrow>
         onKeyDown F SDLK_LEFT s rs = Some (s\<lparr>state := MAIN_MENU\<rparr>, rs) \<and>
         onKeyDown F SDLK_a s rs = Some (s\<lparr>state := MAIN_MENU\<rparr>, rs) \<and>
         onKeyDown F SDLK_RIGHT s rs = Some (s\<lparr>state := MAIN_MENU\<rparr>, rs) \<and>
         onKeyDown F SDLK_d s rs = Some (s\<lparr>state := MAIN_MENU\<rparr>, rs)))"
proof (intro conjI impI)
  assume "state s = MAIN_MENU"
  then show "onKeyDown F SDLK_RETURN s rs =
        (if selectedOption s = 0 then startGame s rs
         else if selectedOption s = 1 then Some (s\<lparr>state := CONFIG_MENU\<rparr>, rs)
         else if selectedOption s = 2 then Some (s\<lparr>state := MODE_MENU\<rparr>, rs)
         else if selectedOption s = 3 then Some (s\<lparr>state := QUIT\<rparr>, rs)
         else Some (s, rs))"
    by (simp add: onKeyDown_return_def mainMenuSelection_def)
next
  assume "state s = PAUSED"
  then show "onKeyDown F SDLK_RETURN s rs =
        Some (s\<lparr>state := (if pauseMenuOption s = 0 then PLAYING else MAIN_MENU)\<rparr>, rs)"
    by (simp add: onKeyDown_return_def)
next
  assume "state s = MODE_MENU"
  then show "onKeyDown F SDLK_RETURN s rs =
        Some (s\<lparr>gameMode := (if modeMenuOption s = 0 then NORMAL else FLASHLIGHT),
                state := MAIN_MENU\<rparr>, rs)"
    by (simp add: onKeyDown_return_def modeSelection_def)
next
  assume "state s = CONFIG_MENU"
  then show "onKeyDown F SDLK_RETURN s rs = Some (s, rs)"
    by (simp add: onKeyDown_return_def)
next
  assume c: "state s = CONFIG_MENU" "configOption s = int_of_ConfigOption EXIT"
  then have "adjustConfigOption F b s = Some (s\<lparr>state := MAIN_MENU\<rparr>)" for b
    by (simp add: adjustConfigOption_def ConfigOption_of_int_def)
  with c show "onKeyDown F SDLK_LEFT s rs = Some (s\<lparr>state := MAIN_MENU\<rparr>, rs)"
    "onKeyDown F SDLK_a s rs = Some (s\<lparr>state := MAIN_MENU\<rparr>, rs)"
    "onKeyDown F SDLK_RIGHT s rs = Some (s\<lparr>state := MAIN_MENU\<rparr>, rs)"
    "onKeyDown F SDLK_d s rs = Some (s\<lparr>state := MAIN_MENU\<rparr>, rs)"
    by (simp_all add: onKeyDown_left_def onKeyDown_right_def)
qed

theorem confirm_input_witness:
  "state (Application_init exact_ops) = MAIN_MENU \<and>
   selectedOption (Application_init exact_ops) = 0 \<and>
   onKeyDown exact_ops SDLK_RETURN (Application_init exact_ops) start_tape
     = Some (playing_example, []) \<and>
   state config_exit_example = CONFIG_MENU \<and>
   configOption config_exit_example = int_of_ConfigOption EXIT \<and>
   onKeyDown exact_ops SDLK_RETURN config_exit_example [] = Some (config_exit_example, []) \<and>
   onKeyDown exact_ops SDLK_RIGHT config_exit_example []
     = Some (config_exit_example\<lparr>state := MAIN_MENU\<rparr>, []) \<and>
   state (playing_example\<lparr>state := PAUSED\<rparr>) = PAUSED \<and>
   onKeyDown exact_ops SDLK_RETURN (playing_example\<lparr>state := PAUSED\<rparr>) []
     = Some (playing_example, []) \<and>
   state ((Application_init exact_ops)\<lparr>state := MODE_MENU, modeMenuOption := 1\<rparr>) = MODE_MENU \<and>
   onKeyDown exact_ops SDLK_RETURN
       ((Application_init exact_ops)\<lparr>state := MODE_MENU, modeMenuOption := 1\<rparr>) []
     = Some ((Application_init exact_ops)\<lparr>gameMode := FLASHLIGHT, modeMenuOption := 1\<rparr>, [])"
proof -
  have i: "state (Application_init exact_ops) = MAIN_MENU"
    "selectedOption (Application_init exact_ops) = 0"
    by (simp_all add: Application_init_def)
  have g: "startGame (Application_init exact_ops) start_tape = Some (playing_example, [])"
    by code_simp
  have c: "state config_exit_example = CONFIG_MENU"
    "configOption config_exit_example = int_of_ConfigOption EXIT"
    by (simp_all add: config_exit_example_def)
  have p: "state (playing_example\<lparr>state := PAUSED\<rparr>) = PAUSED"
    "pauseMenuOption (playing_example\<lparr>state := PAUSED\<rparr>) = 0"
    "playing_example\<lparr>state := PLAYING\<rparr> = playing_example"
    by (simp_all add: playing_example_def Application_init_def)
  have m: "state ((Application_init exact_ops)\<lparr>state := MODE_MENU, modeMenuOption := 1\<rparr>) = MODE_MENU"
    "(Application_init exact_ops)\<lparr>gameMode := FLASHLIGHT, modeMenuOption := 1, state := MAIN_MENU\<rparr>
      = (Application_init exact_ops)\<lparr>gameMode := FLASHLIGHT, modeMenuOption := 1\<rparr>"
    by (simp_all add: Application_init_def)
  from confirm_input [of "Application_init exact_ops" exact_ops start_tape]
    confirm_input [of config_exit_example exact_ops "[]"]
    confirm_input [of "playing_example\<lparr>state := PAUSED\<rparr>" exact_ops "[]"]
    confirm_input [of "(Application_init exact_ops)\<lparr>state := MODE_MENU, modeMenuOption := 1\<rparr>"
      exact_ops "[]"]
  show ?thesis
    using i g c p m by simp
qed

section \<open>When sparkles decay\<close>

lemma reachable_crashed_turned_example: "reachable exact_ops crashed_turned_example"
proof -
  have "handleEvent exact_ops (SDL_KEYDOWN SDLK_UP) playing_example [] = Some (turned_example, [])"
    by (simp add: onKeyDown_up_def turned_example_def playing_example_def Application_init_def)
  with reachable_playing_example have "reachable exact_ops turned_example"
    by (rule reachable_event)
  then have "reachable exact_ops crashed_example"
    using turned_example_crashes by (rule reachable_update)
  moreover have "handleEvent exact_ops (SDL_KEYDOWN SDLK_UP) crashed_example []
      = Some (crashed_turned_example, [])"
    by (simp add: onKeyDown_up_def crashed_turned_example_def crashed_example_def
        playing_example_def Application_init_def)
  ultimately show ?thesis
    by (rule reachable_event)
qed

lemma crashed_turned_example_crashes:
  "update exact_ops 200 crashed_turned_example start_tape =
     Some (crashed_example\<lparr>animationTime := 1 / 25, lastMoveTime := 200,
             sparkles := replicate 40 \<lparr>sx = 410, sy = 310, life = 1\<rparr>\<rparr>, [])"
  by code_simp

text \<open>
  C10, as stated, fails on a collision tick: in a reachable Playing state whose interval
  has elapsed and whose new head is an obstacle, the 20 sparkles present keep their life
  of 1 (they do not drop to 0.95) and 20 more are appended.
\<close>

theorem sparkles_on_collision_counterexample:
  "reachable exact_ops crashed_turned_example \<and>
   state crashed_turned_example = PLAYING \<and> \<not> waiting 200 crashed_turned_example \<and>
   sparkles crashed_turned_example = replicate 20 \<lparr>sx = 410, sy = 310, life = 1\<rparr> \<and>
   sparkles (decaySparkles exact_ops crashed_turned_example)
     = replicate 20 \<lparr>sx = 410, sy = 310, life = 19 / 20\<rparr> \<and>
   (\<exists>s' rs'. update exact_ops 200 crashed_turned_example start_tape = Some (s', rs') \<and>
      sparkles s' = replicate 40 \<lparr>sx = 410, sy = 310, life = 1\<rparr> \<and>
      sparkles s' \<noteq> sparkles (decaySparkles exact_ops crashed_turned_example))"
proof -
  have a: "state crashed_turned_example = PLAYING" "\<not> waiting 200 crashed_turned_example"
    "sparkles crashed_turned_example = replicate 20 \<lparr>sx = 410, sy = 310, life = 1\<rparr>"
    by (simp_all add: crashed_turned_example_def crashed_example_def playing_example_def
        Application_init_def waiting_def)
  have d: "sparkles (decaySparkles exact_ops crashed_turned_example)
     = replicate 20 \<lparr>sx = 410, sy = 310, life = 19 / 20\<rparr>"
    by (simp add: decaySparkles_def a exact_ops_def)
  have "length (replicate 40 \<lparr>sx = 410 :: rat, sy = 310 :: rat, life = 1 :: rat\<rparr>)
      \<noteq> length (replicate 20 \<lparr>sx = 410 :: rat, sy = 310 :: rat, life = 19 / 20 :: rat\<rparr>)"
    by simp
  then have "replicate 40 \<lparr>sx = 410 :: rat, sy = 310 :: rat, life = 1 :: rat\<rparr>
      \<noteq> replicate 20 \<lparr>sx = 410, sy = 310, life = 19 / 20\<rparr>"
    by (metis (no_types))
  with reachable_crashed_turned_example a d crashed_turned_example_crashes show ?thesis
    by simp
qed

text \<open>
  C10, amended. An update outside the Playing state, or before the interval has elapsed,
  only advances the animation time and leaves the sparkle list as it is. An update in
  the Playing state after the interval has elapsed that ends without a collision (the
  snake moves or eats) subtracts \<open>0.05f\<close> from every sparkle's life and then removes the
  sparkles whose life is \<open><= 0\<close>. One that ends in a collision leaves the sparkles
  present undecayed and appends 20 sparkles of life \<open>1.0f\<close> centred on the head.
\<close>

theorem sparkle_decay:
  "(state s \<noteq> PLAYING \<or> waiting t s \<longrightarrow>
      update F t s rs = Some (animate F s, rs) \<and> sparkles (animate F s) = sparkles s) \<and>
   (state s = PLAYING \<and> \<not> waiting t s \<and>
    (snake s = [] \<or>
     newHead (hd (snake s)) (direction s) \<notin> set (snake s) \<and>
     newHead (hd (snake s)) (direction s) \<notin> set (obstacles s)) \<longrightarrow>
      (\<forall>s' rs'. update F t s rs = Some (s', rs') \<longrightarrow>
         sparkles s' =
           filter (\<lambda>sp. \<not> f_le F (life sp) (f_lit F 0 0))
             (map (\<lambda>sp. sp\<lparr>life := f_sub F (life sp) (f_lit F 5 2)\<rparr>) (sparkles s)))) \<and>
   (state s = PLAYING \<and> \<not> waiting t s \<and> snake s \<noteq> [] \<and>
    (newHead (hd (snake s)) (direction s) \<in> set (snake s) \<or>
     newHead (hd (snake s)) (direction s) \<in> set (obstacles s)) \<longrightarrow>
      (\<forall>s' rs'. update F t s rs = Some (s', rs') \<longrightarrow>
         sparkles s' = sparkles s @ replicate 20 (collisionSparkle F (hd (snake s)))))"
proof (intro conjI impI allI)
  assume "state s \<noteq> PLAYING \<or> waiting t s"
  then show "update F t s rs = Some (animate F s, rs)"
    using update_not_playing [of s F t rs] update_waiting [of t s F rs] by blast
next
  show "sparkles (animate F s) = sparkles s" by simp
next
  fix s' rs'
  assume a: "state s = PLAYING \<and> \<not> waiting t s \<and>
    (snake s = [] \<or>
     newHead (hd (snake s)) (direction s) \<notin> set (snake s) \<and>
     newHead (hd (snake s)) (direction s) \<notin> set (obstacles s))"
    and u: "update F t s rs = Some (s', rs')"
  let ?d = "filter (\<lambda>sp. \<not> f_le F (life sp) (f_lit F 0 0))
             (map (\<lambda>sp. sp\<lparr>life := f_sub F (life sp) (f_lit F 5 2)\<rparr>) (sparkles s))"
  show "sparkles s' = ?d"
  proof (cases "snake s")
    case Nil
    with a u show ?thesis
      by (auto simp: update_empty decaySparkles_def)
  next
    case (Cons h rest)
    with a have free: "newHead h (direction s) \<notin> set (snake s)"
      "newHead h (direction s) \<notin> set (obstacles s)"
      and p: "state s = PLAYING" "\<not> waiting t s"
      by auto
    show ?thesis
    proof (cases "newHead h (direction s) \<in> set (foodItems s)")
      case True
      from update_eat_Some [OF p Cons free True u] obtain fd ob where
        "s' = decaySparkles F
            (animate F s\<lparr>lastMoveTime := t, snake := newHead h (direction s) # snake s,
                score := score s + 1,
                highScore := (if score s + 1 > highScore s then score s + 1 else highScore s),
                foodItems := fd, obstacles := obstacles s @ ob\<rparr>)"
        by blast
      then show ?thesis by (simp add: decaySparkles_def)
    next
      case False
      from u show ?thesis
        unfolding update_move [OF p Cons free False] by (auto simp: decaySparkles_def)
    qed
  qed
next
  fix s' rs'
  assume a: "state s = PLAYING \<and> \<not> waiting t s \<and> snake s \<noteq> [] \<and>
    (newHead (hd (snake s)) (direction s) \<in> set (snake s) \<or>
     newHead (hd (snake s)) (direction s) \<in> set (obstacles s))"
    and u: "update F t s rs = Some (s', rs')"
  then obtain h rest where sn: "snake s = h # rest"
    by (cases "snake s") auto
  define s0 where "s0 = animate F s\<lparr>lastMoveTime := t\<rparr>"
  from a sn have "update F t s rs = handleCollision F s0 rs"
    unfolding s0_def by (intro update_collision [where rest = rest]) auto
  with u have "handleCollision F s0 rs = Some (s', rs')" by simp
  from handleCollision_Some [OF this] obtain h' rest' fd ob where
    h': "snake s0 = h' # rest'" and
    s': "s' = s0\<lparr>sparkles := sparkles s0 @ replicate 20 (collisionSparkle F h'),
                  highScore := (if score s0 > highScore s0 then score s0 else highScore s0),
                  snake := [center], direction := \<lparr>px = 1, py = 0\<rparr>, score := 0,
                  foodItems := fd, obstacles := ob\<rparr>"
    by blast
  from h' sn have "h' = h" by (simp add: s0_def)
  then show "sparkles s' = sparkles s @ replicate 20 (collisionSparkle F (hd (snake s)))"
    unfolding s' using sn by (simp add: s0_def)
qed

theorem sparkle_decay_witness:
  "state crashed_turned_example = PLAYING \<and> \<not> waiting 200 crashed_turned_example \<and>
   snake crashed_turned_example \<noteq> [] \<and>
   newHead (hd (snake crashed_turned_example)) (direction crashed_turned_example)
     \<in> set (obstacles crashed_turned_example) \<and>
   (\<exists>s' rs'. update exact_ops 200 crashed_turned_example start_tape = Some (s', rs') \<and>
      sparkles s' = sparkles crashed_turned_example
         @ replicate 20 (collisionSparkle exact_ops (hd (snake crashed_turned_example)))) \<and>
   state crashed_example = PLAYING \<and> waiting 150 crashed_example \<and>
   update exact_ops 150 crashed_example [] = Some (animate exact_ops crashed_example, []) \<and>
   \<not> waiting 200 crashed_example \<and>
   newHead (hd (snake crashed_example)) (direction crashed_example) \<notin> set (snake crashed_example) \<and>
   newHead (hd (snake crashed_example)) (direction crashed_example)
     \<notin> set (obstacles crashed_example) \<and>
   (\<exists>s' rs'. update exact_ops 200 crashed_example eat_tape = Some (s', rs') \<and>
      sparkles s' = replicate 20 \<lparr>sx = 410, sy = 310, life = 19 / 20\<rparr>)"
proof -
  have a: "state crashed_turned_example = PLAYING" "\<not> waiting 200 crashed_turned_example"
    "snake crashed_turned_example \<noteq> []"
    "newHead (hd (snake crashed_turned_example)) (direction crashed_turned_example)
     \<in> set (obstacles crashed_turned_example)"
    by (simp_all add: crashed_turned_example_def crashed_example_def playing_example_def
        Application_init_def waiting_def newHead_def)
  have b: "state crashed_example = PLAYING" "waiting 150 crashed_example"
    "\<not> waiting 200 crashed_example"
    "newHead (hd (snake crashed_example)) (direction crashed_example) \<notin> set (snake crashed_example)"
    "newHead (hd (snake crashed_example)) (direction crashed_example)
     \<notin> set (obstacles crashed_example)"
    "sparkles crashed_example = replicate 20 \<lparr>sx = 410, sy = 310, life = 1\<rparr>"
    by (simp_all add: crashed_example_def playing_example_def
        Application_init_def waiting_def newHead_def)
  have e: "update exact_ops 200 crashed_example eat_tape =
      Some (eaten_example\<lparr>animationTime := 1 / 25, lastMoveTime := 200,
              sparkles := replicate 20 \<lparr>sx = 410, sy = 310, life = 19 / 20\<rparr>\<rparr>, [])"
    by code_simp
  have d: "filter (\<lambda>sp. \<not> f_le exact_ops (life sp) (f_lit exact_ops 0 0))
             (map (\<lambda>sp. sp\<lparr>life := f_sub exact_ops (life sp) (f_lit exact_ops 5 2)\<rparr>)
                (replicate 20 \<lparr>sx = 410, sy = 310, life = 1\<rparr>))
       = replicate 20 \<lparr>sx = 410, sy = 310, life = 19 / 20\<rparr>"
    by (simp add: exact_ops_def)
  from sparkle_decay [of crashed_turned_example 200 exact_ops start_tape]
    sparkle_decay [of crashed_example 150 exact_ops "[]"]
    sparkle_decay [of crashed_example 200 exact_ops eat_tape]
  show ?thesis
    using a b d e crashed_turned_example_crashes by auto
qed

end
